theory Spec2Isabelle
  imports Complex_Main "HOL-Library.Word"
begin

section \<open>Typed errors (core/errors/app-error.ts)\<close>

text \<open>
  Modelled from the spec: the enum file \<^verbatim>\<open>error-codes.enum.ts\<close> is imported by
  \<^verbatim>\<open>app-error.ts\<close> but is not among the sources. The spec asks for "a machine code"; the
  constructors below are the thirteen keys of the table in \<^verbatim>\<open>getDefaultUserMessage\<close>.
\<close>

datatype error_code =
    VIEWER_INIT_FAILED | IFC_LOAD_FAILED | IFC_PARSE_FAILED | WASM_LOAD_FAILED
  | GEOMETRY_PROCESSING_FAILED | INVALID_FILE_FORMAT | FILE_TOO_LARGE
  | MEMORY_LIMIT_EXCEEDED | RENDERER_ERROR | CAMERA_ERROR | SCENE_ERROR
  | NETWORK_ERROR | UNKNOWN_ERROR

text \<open>Values stored in the \<^verbatim>\<open>context\<close> record of an error.\<close>

datatype ctx_value = CtxString string | CtxNumber nat | CtxBool bool

text \<open>
  A thrown JavaScript value. \<open>PlainError m\<close> is \<^verbatim>\<open>new Error(m)\<close>; \<open>AppError\<close> carries the
  fields of the class \<^verbatim>\<open>AppError\<close> in declaration order: name, code, message, userMessage,
  recoverable, context, originalError. The timestamp and the stack are left out.
\<close>

datatype js_error =
    PlainError string
  | AppError string error_code string string bool
      "(string \<times> ctx_value) list option" "js_error option"

fun getDefaultUserMessage :: "error_code \<Rightarrow> string" where
  "getDefaultUserMessage VIEWER_INIT_FAILED =
     ''Failed to initialize 3D viewer. Please refresh the page.''"
| "getDefaultUserMessage IFC_LOAD_FAILED = ''Failed to load IFC file. Please try again.''"
| "getDefaultUserMessage IFC_PARSE_FAILED =
     ''Unable to parse IFC file. The file may be corrupted.''"
| "getDefaultUserMessage WASM_LOAD_FAILED =
     ''Failed to load required components. Please check your connection.''"
| "getDefaultUserMessage GEOMETRY_PROCESSING_FAILED = ''Error processing model geometry.''"
| "getDefaultUserMessage INVALID_FILE_FORMAT =
     ''Invalid file format. Please select a valid IFC file.''"
| "getDefaultUserMessage FILE_TOO_LARGE = ''File is too large. Please select a smaller file.''"
| "getDefaultUserMessage MEMORY_LIMIT_EXCEEDED = ''Model is too complex for available memory.''"
| "getDefaultUserMessage RENDERER_ERROR = ''Graphics rendering error occurred.''"
| "getDefaultUserMessage CAMERA_ERROR = ''Camera control error.''"
| "getDefaultUserMessage SCENE_ERROR = ''Scene management error.''"
| "getDefaultUserMessage NETWORK_ERROR = ''Network connection error.''"
| "getDefaultUserMessage UNKNOWN_ERROR = ''An unexpected error occurred. Please try again.''"

text \<open>
  The constructor of \<^verbatim>\<open>AppError\<close>, its argument \<^verbatim>\<open>details\<close> spelled out. The source writes
  \<^verbatim>\<open>details.userMessage || default\<close>: an absent and an empty user message both fall back.
\<close>

definition newAppError ::
  "error_code \<Rightarrow> string \<Rightarrow> string option \<Rightarrow> bool \<Rightarrow> (string \<times> ctx_value) list option \<Rightarrow>
   js_error option \<Rightarrow> js_error" where
  "newAppError c msg userMsg rec ctx orig =
     AppError ''AppError'' c msg
       (case userMsg of
          None \<Rightarrow> getDefaultUserMessage c
        | Some u \<Rightarrow> if u = [] then getDefaultUserMessage c else u)
       rec ctx orig"

fun setName :: "string \<Rightarrow> js_error \<Rightarrow> js_error" where
  "setName n (AppError _ c msg um rec ctx orig) = AppError n c msg um rec ctx orig"
| "setName n (PlainError m) = PlainError m"

definition IfcLoadError ::
  "string \<Rightarrow> js_error option \<Rightarrow> (string \<times> ctx_value) list option \<Rightarrow> js_error" where
  "IfcLoadError msg orig ctx =
     setName ''IfcLoadError'' (newAppError IFC_LOAD_FAILED msg None True ctx orig)"

definition WasmLoadError ::
  "string \<Rightarrow> js_error option \<Rightarrow> (string \<times> ctx_value) list option \<Rightarrow> js_error" where
  "WasmLoadError msg orig ctx =
     setName ''WasmLoadError'' (newAppError WASM_LOAD_FAILED msg None False ctx orig)"

section \<open>The scene objects the loader builds\<close>

text \<open>
  A JavaScript number is NaN, one of the two infinities, or a finite value. Finite values
  are kept as reals; the loader does no arithmetic on the numbers it handles, it compares
  them and takes \<^verbatim>\<open>Math.min\<close> and \<^verbatim>\<open>Math.max\<close>. Both are modelled with their treatment
  of NaN: a comparison with NaN is false, and \<^verbatim>\<open>Math.min\<close> and \<^verbatim>\<open>Math.max\<close> return NaN as
  soon as an argument is NaN. The literal \<^verbatim>\<open>0.99\<close> is the number 99/100.
\<close>

datatype js_number = NaN | NegInfinity | Num real | Infinity

text \<open>The operator \<^verbatim>\<open><\<close>.\<close>

fun jsLess :: "js_number \<Rightarrow> js_number \<Rightarrow> bool" where
  "jsLess NaN y = False"
| "jsLess x NaN = False"
| "jsLess (Num a) (Num b) = (a < b)"
| "jsLess NegInfinity NegInfinity = False"
| "jsLess NegInfinity y = True"
| "jsLess Infinity y = False"
| "jsLess (Num a) Infinity = True"
| "jsLess (Num a) NegInfinity = False"

text \<open>The operator \<^verbatim>\<open>>=\<close>.\<close>

definition jsGreaterEq :: "js_number \<Rightarrow> js_number \<Rightarrow> bool" where
  "jsGreaterEq x y = (x \<noteq> NaN \<and> y \<noteq> NaN \<and> \<not> jsLess x y)"

definition Math_min :: "js_number \<Rightarrow> js_number \<Rightarrow> js_number" where
  "Math_min x y = (if x = NaN \<or> y = NaN then NaN else if jsLess y x then y else x)"

definition Math_max :: "js_number \<Rightarrow> js_number \<Rightarrow> js_number" where
  "Math_max x y = (if x = NaN \<or> y = NaN then NaN else if jsLess x y then y else x)"

text \<open>A number lies between 0 and 1, by the comparisons of the language.\<close>

definition inUnitInterval :: "js_number \<Rightarrow> bool" where
  "inUnitInterval x = (jsGreaterEq x (Num 0) \<and> jsGreaterEq (Num 1) x)"

text \<open>
  A \<^verbatim>\<open>BufferGeometry\<close> keeps its position attribute and its index; the normals and bounds
  that three.js derives from them are not part of the model. The position array is a
  \<^verbatim>\<open>Float32Array\<close> and the index array a \<^verbatim>\<open>Uint32Array\<close>; the engine hands the loader
  arrays of these two types, so copying them into the attributes changes no element.
\<close>

record buffer_geometry =
  position :: "js_number list option"
  index :: "32 word list option"

datatype side = FrontSide | BackSide | DoubleSide

record mesh_lambert_material =
  color :: "js_number \<times> js_number \<times> js_number"
  side :: side
  transparent :: bool
  opacity :: js_number
  depthWrite :: bool

datatype mesh_material =
    NoMaterial
  | SingleMaterial mesh_lambert_material
  | MaterialArray "mesh_lambert_material list"

record mesh_data =
  geometry :: "buffer_geometry option"
  material :: mesh_material
  userData :: "(string \<times> nat) list"
  appliedMatrix :: "js_number list"
  frustumCulled :: bool
  castShadow :: bool
  receiveShadow :: bool

datatype object_kind = IsGroup | IsMesh mesh_data | IsOther

datatype object3d = Object3D (objName: string) (kind: object_kind) (children: "object3d list")

type_synonym box3 =
  "(js_number \<times> js_number \<times> js_number) \<times> (js_number \<times> js_number \<times> js_number)"

section \<open>Observable effects\<close>

datatype log_level = LogDebug | LogInfo | LogWarn | LogError

datatype stage = reading | parsing | geometry_stage | rendering | complete

record ifc_load_progress =
  percent :: nat
  message :: string
  stage :: stage

text \<open>
  Every call that leaves the loader or the model is recorded, in order: calls of the
  logger, calls of the progress callback, calls into the web-ifc engine that acquire or
  release something, and calls of \<^verbatim>\<open>dispose()\<close> on three.js resources. A release is
  recorded when it is invoked, whether or not it then throws. \<open>MeshPushed\<close> records
  \<^verbatim>\<open>meshes.push(mesh)\<close>: the list \<^verbatim>\<open>generateGeometry\<close> returns is the list of the meshes
  pushed, also of those pushed in a turn that threw afterwards.
\<close>

datatype event =
    Log log_level string
  | Progress ifc_load_progress
  | ApiCreated
  | WasmPathSet string
  | InitCalled
  | ModelOpened nat
  | CloseModelCalled nat
  | GeometryAcquired nat
  | GeometryDeleted nat
  | MeshPushed mesh_data
  | GeometryDisposed buffer_geometry
  | MaterialDisposed mesh_lambert_material

section \<open>IfcModel (domain/models/ifc-model.model.ts)\<close>

record ifc_model_metadata =
  metaId :: string
  fileName :: string
  fileSize :: nat
  loadedAt :: nat
  meshCount :: nat
  vertexCount :: real
  boundingBox :: box3

text \<open>The private fields \<^verbatim>\<open>_modelGroup\<close>, \<^verbatim>\<open>_metadata\<close>, \<^verbatim>\<open>_rawData\<close>, \<^verbatim>\<open>_disposed\<close>.\<close>

record ifc_model =
  priv_modelGroup :: object3d
  priv_metadata :: ifc_model_metadata
  priv_rawData :: "8 word list"
  priv_disposed :: bool

definition newIfcModel :: "object3d \<Rightarrow> ifc_model_metadata \<Rightarrow> 8 word list \<Rightarrow> ifc_model" where
  "newIfcModel g md raw =
     \<lparr>priv_modelGroup = g, priv_metadata = md, priv_rawData = raw, priv_disposed = False\<rparr>"

definition ensureNotDisposed :: "ifc_model \<Rightarrow> js_error option" where
  "ensureNotDisposed m =
     (if priv_disposed m then Some (PlainError ''Cannot access disposed IFC model'') else None)"

definition modelGroup :: "ifc_model \<Rightarrow> js_error + object3d" where
  "modelGroup m = (case ensureNotDisposed m of Some e \<Rightarrow> Inl e | None \<Rightarrow> Inr (priv_modelGroup m))"

definition metadata :: "ifc_model \<Rightarrow> ifc_model_metadata" where
  "metadata m = priv_metadata m"

definition rawData :: "ifc_model \<Rightarrow> js_error + 8 word list" where
  "rawData m = (case ensureNotDisposed m of Some e \<Rightarrow> Inl e | None \<Rightarrow> Inr (priv_rawData m))"

definition isDisposed :: "ifc_model \<Rightarrow> bool" where
  "isDisposed m = priv_disposed m"

text \<open>\<^verbatim>\<open>Object3D.traverse\<close>: the callback sees the object itself, then every descendant.\<close>

fun traverse :: "object3d \<Rightarrow> object3d list" where
  "traverse (Object3D n k cs) = Object3D n k cs # concat (map traverse cs)"

text \<open>The callback that \<^verbatim>\<open>dispose\<close> passes to \<^verbatim>\<open>traverse\<close>.\<close>

definition disposeObject :: "object3d \<Rightarrow> event list" where
  "disposeObject obj =
     (case kind obj of
        IsMesh m \<Rightarrow>
          (case geometry m of None \<Rightarrow> [] | Some g \<Rightarrow> [GeometryDisposed g]) @
          (case material m of
             MaterialArray ms \<Rightarrow> map MaterialDisposed ms
           | SingleMaterial x \<Rightarrow> [MaterialDisposed x]
           | NoMaterial \<Rightarrow> [])
      | IsGroup \<Rightarrow> []
      | IsOther \<Rightarrow> [])"

text \<open>\<^verbatim>\<open>Object3D.clear\<close> removes every child.\<close>

definition clear :: "object3d \<Rightarrow> object3d" where
  "clear obj = Object3D (objName obj) (kind obj) []"

definition dispose :: "ifc_model \<Rightarrow> ifc_model \<times> event list" where
  "dispose m =
     (if priv_disposed m then (m, [])
      else (m\<lparr>priv_modelGroup := clear (priv_modelGroup m), priv_disposed := True\<rparr>,
            concat (map disposeObject (traverse (priv_modelGroup m)))))"

text \<open>The meshes below an object, and the resources a mesh holds.\<close>

definition meshesOf :: "object3d \<Rightarrow> mesh_data list" where
  "meshesOf obj =
     concat (map (\<lambda>x. case kind x of IsMesh m \<Rightarrow> [m] | IsGroup \<Rightarrow> [] | IsOther \<Rightarrow> [])
       (traverse obj))"

definition materialsOf :: "mesh_data \<Rightarrow> mesh_lambert_material list" where
  "materialsOf m =
     (case material m of
        MaterialArray ms \<Rightarrow> ms
      | SingleMaterial x \<Rightarrow> [x]
      | NoMaterial \<Rightarrow> [])"

section \<open>Sequencing calls that may throw\<close>

text \<open>
  A computation yields a thrown value or a result, together with the events it caused up
  to that point. \<open>andThen\<close> is statement sequencing: an exception in the first statement
  skips the second and keeps the events so far.
\<close>

type_synonym 'a io = "(js_error + 'a) \<times> event list"

definition succeed :: "'a \<Rightarrow> 'a io" where
  "succeed x = (Inr x, [])"

definition throw :: "js_error \<Rightarrow> 'a io" where
  "throw e = (Inl e, [])"

definition emit :: "event \<Rightarrow> unit io" where
  "emit ev = (Inr (), [ev])"

definition call :: "js_error + 'a \<Rightarrow> 'a io" where
  "call r = (r, [])"

definition andThen :: "'a io \<Rightarrow> ('a \<Rightarrow> 'b io) \<Rightarrow> 'b io" where
  "andThen m f =
     (case m of
        (Inl e, t) \<Rightarrow> (Inl e, t)
      | (Inr x, t) \<Rightarrow> (case f x of (r, t') \<Rightarrow> (r, t @ t')))"

section \<open>The web-ifc engine, as the loader sees it\<close>

text \<open>
  The engine is foreign code. Its answers are a parameter of the model: each method is a
  function from its arguments to a thrown value or a result. That holds for every call the
  loader makes, \<^verbatim>\<open>geometry.delete()\<close> included: the field \<open>delete\<close> of a geometry is
  \<open>Some e\<close> when releasing it throws \<open>e\<close>.
\<close>

datatype color4 =
  Color4 (chan_x: js_number) (chan_y: js_number) (chan_z: js_number) (chan_w: js_number)

record placed_geometry =
  placedColor :: color4
  geometryExpressID :: nat
  flatTransformation :: "js_number list"

record flat_mesh =
  expressID :: nat
  geometries :: "placed_geometry option list"

record ifc_geometry =
  GetVertexData :: "js_error + nat"
  GetVertexDataSize :: "js_error + nat"
  GetIndexData :: "js_error + nat"
  GetIndexDataSize :: "js_error + nat"
  delete :: "js_error option"

record ifc_api =
  SetWasmPath :: "string \<Rightarrow> js_error option"
  Init :: "js_error option"
  OpenModel :: "8 word list \<Rightarrow> js_error + nat"
  LoadAllGeometry :: "nat \<Rightarrow> js_error + flat_mesh list"
  GetGeometry :: "nat \<Rightarrow> nat \<Rightarrow> js_error + ifc_geometry"
  GetVertexArray :: "nat \<Rightarrow> nat \<Rightarrow> js_error + js_number list option"
  GetIndexArray :: "nat \<Rightarrow> nat \<Rightarrow> js_error + 32 word list option"
  CloseModel :: "nat \<Rightarrow> js_error option"

section \<open>IfcLoaderService (domain/services/ifc-loader.service.ts)\<close>

record loader_state =
  ifcApi :: "ifc_api option"
  isInitialized :: bool
  isInitializing :: bool

definition initialLoader :: loader_state where
  "initialLoader = \<lparr>ifcApi = None, isInitialized = False, isInitializing = False\<rparr>"

text \<open>Of \<^verbatim>\<open>ViewerConfig\<close> the loader reads \<^verbatim>\<open>config.wasm\<close> only.\<close>

record viewer_config =
  wasm_path :: string
  wasm_useCdn :: bool

subsection \<open>initialize\<close>

text \<open>
  \<^verbatim>\<open>initialize\<close> is asynchronous with one suspension point, \<^verbatim>\<open>await this.ifcApi.Init()\<close>.
  \<open>initialize_begin\<close> runs the call up to that point; \<open>initialize_resume\<close> runs the rest once
  the promise has settled. How the call stands after its first part:
\<close>

datatype init_phase =
    Rejected js_error
  | Returned
  | Failed js_error
  | Awaiting "js_error option"

text \<open>
  The \<^verbatim>\<open>catch\<close> block followed by the \<^verbatim>\<open>finally\<close> block.
\<close>

definition initialize_catch ::
  "viewer_config \<Rightarrow> js_error \<Rightarrow> loader_state \<Rightarrow> js_error \<times> loader_state \<times> event list" where
  "initialize_catch config err s =
     (WasmLoadError ''Failed to initialize web-ifc WASM module'' (Some err)
        (Some [(''wasmPath'', CtxString (wasm_path config))]),
      s\<lparr>ifcApi := None, isInitializing := False\<rparr>,
      [Log LogError ''Failed to initialize IFC Loader''])"

text \<open>
  The argument \<open>newApi\<close> is what \<^verbatim>\<open>new WEBIFC.IfcAPI()\<close> evaluates to.
\<close>

definition initialize_begin ::
  "viewer_config \<Rightarrow> js_error + ifc_api \<Rightarrow> loader_state \<Rightarrow> init_phase \<times> loader_state \<times> event list"
  where
  "initialize_begin config newApi s =
     (if isInitializing s then
        (Rejected (PlainError ''IFC Loader initialization already in progress''), s, [])
      else if isInitialized s then
        (Returned, s, [Log LogDebug ''IFC Loader already initialized''])
      else
        let s1 = s\<lparr>isInitializing := True\<rparr>;
            t1 = [Log LogInfo ''Initializing IFC Loader'']
        in (case newApi of
              Inl err \<Rightarrow>
                (case initialize_catch config err s1 of
                   (e, s2, t2) \<Rightarrow> (Failed e, s2, t1 @ t2))
            | Inr api \<Rightarrow>
                let s2 = s1\<lparr>ifcApi := Some api\<rparr>;
                    t2 = t1 @ [ApiCreated]
                in (case SetWasmPath api (wasm_path config) of
                      Some err \<Rightarrow>
                        (case initialize_catch config err s2 of
                           (e, s3, t3) \<Rightarrow> (Failed e, s3, t2 @ t3))
                    | None \<Rightarrow>
                        (Awaiting (Init api), s2,
                         t2 @ [WasmPathSet (wasm_path config), InitCalled]))))"

definition initialize_resume ::
  "viewer_config \<Rightarrow> js_error option \<Rightarrow> loader_state \<Rightarrow>
   (js_error + unit) \<times> loader_state \<times> event list" where
  "initialize_resume config settled s =
     (case settled of
        None \<Rightarrow>
          (Inr (), s\<lparr>isInitialized := True, isInitializing := False\<rparr>,
           [Log LogInfo ''IFC Loader initialized successfully''])
      | Some err \<Rightarrow>
          (case initialize_catch config err s of (e, s', t) \<Rightarrow> (Inl e, s', t)))"

text \<open>A call of \<^verbatim>\<open>initialize\<close> that nothing interleaves with.\<close>

definition initialize ::
  "viewer_config \<Rightarrow> js_error + ifc_api \<Rightarrow> loader_state \<Rightarrow>
   (js_error + unit) \<times> loader_state \<times> event list" where
  "initialize config newApi s =
     (case initialize_begin config newApi s of
        (Rejected e, s1, t1) \<Rightarrow> (Inl e, s1, t1)
      | (Returned, s1, t1) \<Rightarrow> (Inr (), s1, t1)
      | (Failed e, s1, t1) \<Rightarrow> (Inl e, s1, t1)
      | (Awaiting settled, s1, t1) \<Rightarrow>
          (case initialize_resume config settled s1 of (r, s2, t2) \<Rightarrow> (r, s2, t1 @ t2)))"

subsection \<open>dispose (of the loader)\<close>

definition disposeLoader :: "loader_state \<Rightarrow> loader_state \<times> event list" where
  "disposeLoader s =
     (s\<lparr>ifcApi := None, isInitialized := False, isInitializing := False\<rparr>,
      [Log LogInfo ''IFC Loader disposed''])"

subsection \<open>ensureInitialized\<close>

definition ensureInitialized :: "loader_state \<Rightarrow> js_error option" where
  "ensureInitialized s =
     (if \<not> isInitialized s \<or> ifcApi s = None then
        Some (IfcLoadError ''IFC Loader not initialized'' None
          (Some [(''isInitialized'', CtxBool (isInitialized s)),
                 (''hasApi'', CtxBool (ifcApi s \<noteq> None))]))
      else None)"

subsection \<open>generateGeometry\<close>

text \<open>A number inside a template literal: its decimal digits.\<close>

function numberToString :: "nat \<Rightarrow> string" where
  "numberToString n =
     (if n < 10 then [''0123456789'' ! n]
      else numberToString (n div 10) @ [''0123456789'' ! (n mod 10)])"
  by pat_completeness auto
termination
  by (relation "measure id") auto

declare numberToString.simps [simp del]

text \<open>
  Lines 176 to 213: the three.js mesh built from the copied arrays, the placement's colour
  and its transformation. The colour and the transformation are present by the type of a
  placed geometry, and the three.js constructors and methods of these lines do not throw on
  typed arrays and numbers; the calls that can throw are the calls into the engine.
\<close>

definition buildMesh ::
  "flat_mesh \<Rightarrow> placed_geometry \<Rightarrow> js_number list \<Rightarrow> 32 word list \<Rightarrow> mesh_data" where
  "buildMesh flatMesh placedGeometry verts indices =
     (let bufferGeometry = \<lparr>position = Some verts, index = Some indices\<rparr>;
          c = placedColor placedGeometry;
          r = Math_max (Num 0) (Math_min (Num 1) (chan_x c));
          g = Math_max (Num 0) (Math_min (Num 1) (chan_y c));
          b = Math_max (Num 0) (Math_min (Num 1) (chan_z c));
          a = Math_max (Num 0) (Math_min (Num 1) (chan_w c));
          materialColor = (r, g, b);
          mat = \<lparr>color = materialColor, side = DoubleSide,
                 transparent = jsLess a (Num 0.99),
                 opacity = a, depthWrite = jsGreaterEq a (Num 0.99)\<rparr>
      in \<lparr>geometry = Some bufferGeometry,
          material = SingleMaterial mat,
          userData = [(''ifcExpressID'', expressID flatMesh),
                      (''geometryExpressID'', geometryExpressID placedGeometry)],
          appliedMatrix = flatTransformation placedGeometry,
          frustumCulled = True, castShadow = True, receiveShadow = True\<rparr>)"

text \<open>\<^verbatim>\<open>geometry.delete()\<close>, for the geometry acquired under the given express id.\<close>

definition releaseGeometry :: "nat \<Rightarrow> ifc_geometry \<Rightarrow> unit io" where
  "releaseGeometry gid geom =
     andThen (emit (GeometryDeleted gid)) (\<lambda>_.
     (case delete geom of Some e \<Rightarrow> throw e | None \<Rightarrow> succeed ()))"

text \<open>
  The body of the \<^verbatim>\<open>try\<close> block for one placement, lines 162 to 217. A part without
  vertices or indices is released and left by \<^verbatim>\<open>continue\<close>; otherwise the mesh is built,
  pushed, and the geometry released after the push.
\<close>

definition convertPlacement ::
  "ifc_api \<Rightarrow> nat \<Rightarrow> flat_mesh \<Rightarrow> placed_geometry \<Rightarrow> unit io" where
  "convertPlacement api modelID flatMesh placedGeometry =
     andThen (call (GetGeometry api modelID (geometryExpressID placedGeometry))) (\<lambda>geom.
     andThen (emit (GeometryAcquired (geometryExpressID placedGeometry))) (\<lambda>_.
     andThen (call (GetVertexData geom)) (\<lambda>vertexData.
     andThen (call (GetVertexDataSize geom)) (\<lambda>vertexDataSize.
     andThen (call (GetIndexData geom)) (\<lambda>indexData.
     andThen (call (GetIndexDataSize geom)) (\<lambda>indexDataSize.
     andThen (call (GetVertexArray api vertexData vertexDataSize)) (\<lambda>verts.
     andThen (call (GetIndexArray api indexData indexDataSize)) (\<lambda>indices.
       (case (verts, indices) of
          (Some vs, Some ixs) \<Rightarrow>
            if length vs = 0 \<or> length ixs = 0 then
              releaseGeometry (geometryExpressID placedGeometry) geom
            else
              andThen (succeed (buildMesh flatMesh placedGeometry vs ixs)) (\<lambda>mesh.
              andThen (emit (MeshPushed mesh)) (\<lambda>_.
              releaseGeometry (geometryExpressID placedGeometry) geom))
        | _ \<Rightarrow> releaseGeometry (geometryExpressID placedGeometry) geom)))))))))"

text \<open>The meshes pushed among a list of events, in order.\<close>

fun pushedOf :: "event list \<Rightarrow> mesh_data list" where
  "pushedOf [] = []"
| "pushedOf (MeshPushed mesh # t) = mesh # pushedOf t"
| "pushedOf (_ # t) = pushedOf t"

text \<open>
  One turn of the inner loop: the null check, the \<^verbatim>\<open>try\<close> block and its \<^verbatim>\<open>catch\<close>. The
  result is the list of meshes pushed in this turn (none or one) and the events.
\<close>

definition processPlacement ::
  "ifc_api \<Rightarrow> nat \<Rightarrow> nat \<Rightarrow> flat_mesh \<Rightarrow> nat \<Rightarrow> placed_geometry option \<Rightarrow>
   mesh_data list \<times> event list" where
  "processPlacement api modelID i flatMesh j placed =
     (case placed of
        None \<Rightarrow> ([], [])
      | Some placedGeometry \<Rightarrow>
          (case convertPlacement api modelID flatMesh placedGeometry of
             (Inl err, t) \<Rightarrow>
               (pushedOf t,
                t @ [Log LogWarn (''Error processing geometry '' @ numberToString j @
                                   '' of mesh '' @ numberToString i)])
           | (Inr u, t) \<Rightarrow> (pushedOf t, t)))"

fun geometriesLoop ::
  "ifc_api \<Rightarrow> nat \<Rightarrow> nat \<Rightarrow> flat_mesh \<Rightarrow> nat \<Rightarrow> placed_geometry option list \<Rightarrow>
   mesh_data list \<times> event list" where
  "geometriesLoop api modelID i flatMesh j [] = ([], [])"
| "geometriesLoop api modelID i flatMesh j (placed # rest) =
     (case processPlacement api modelID i flatMesh j placed of
        (ms, t) \<Rightarrow>
          (case geometriesLoop api modelID i flatMesh (Suc j) rest of
             (ms', t') \<Rightarrow> (ms @ ms', t @ t')))"

fun flatMeshesLoop ::
  "ifc_api \<Rightarrow> nat \<Rightarrow> nat \<Rightarrow> flat_mesh list \<Rightarrow> mesh_data list \<times> event list" where
  "flatMeshesLoop api modelID i [] = ([], [])"
| "flatMeshesLoop api modelID i (flatMesh # rest) =
     (case geometriesLoop api modelID i flatMesh 0 (geometries flatMesh) of
        (ms, t) \<Rightarrow>
          (case flatMeshesLoop api modelID (Suc i) rest of
             (ms', t') \<Rightarrow> (ms @ ms', t @ t')))"

definition generateGeometry :: "loader_state \<Rightarrow> nat \<Rightarrow> mesh_data list io" where
  "generateGeometry s modelID =
     (case ifcApi s of
        None \<Rightarrow> throw (PlainError ''IFC API not initialized'')
      | Some api \<Rightarrow>
          andThen (call (LoadAllGeometry api modelID)) (\<lambda>flatMeshes.
            (case flatMeshesLoop api modelID 0 flatMeshes of
               (meshes, t) \<Rightarrow>
                 (Inr meshes,
                  t @ [Log LogDebug (''Generated '' @ numberToString (length meshes) @
                                      '' meshes from IFC model'')]))))"

subsection \<open>generateModelId, countVertices\<close>

text \<open>
  What a load reads from its surroundings: the clock, the random suffix of the model id
  (\<^verbatim>\<open>Math.random().toString(36).substr(2, 9)\<close>) and the bounding box three.js computes.
\<close>

record load_env =
  dateNow :: nat
  randomSuffix :: string
  newDate :: nat
  setFromObject :: "object3d \<Rightarrow> box3"

definition generateModelId :: "load_env \<Rightarrow> string" where
  "generateModelId env = ''model-'' @ numberToString (dateNow env) @ ''-'' @ randomSuffix env"

text \<open>
  \<^verbatim>\<open>meshes.reduce\<close>. Reading \<^verbatim>\<open>mesh.geometry.attributes\<close> of a mesh without geometry throws;
  the count of a position attribute is its length over its item size 3, kept here as the
  exact quotient.
\<close>

fun countVerticesFrom :: "real \<Rightarrow> mesh_data list \<Rightarrow> js_error + real" where
  "countVerticesFrom count [] = Inr count"
| "countVerticesFrom count (mesh # rest) =
     (case geometry mesh of
        None \<Rightarrow> Inl (PlainError ''TypeError'')
      | Some g \<Rightarrow>
          countVerticesFrom
            (count + (case position g of Some ps \<Rightarrow> real (length ps) / 3 | None \<Rightarrow> 0)) rest)"

definition countVertices :: "mesh_data list \<Rightarrow> js_error + real" where
  "countVertices meshes = countVerticesFrom 0 meshes"

subsection \<open>loadIfcFile\<close>

text \<open>A \<^verbatim>\<open>File\<close>: its name, its size, and what \<^verbatim>\<open>arrayBuffer()\<close> settles to.\<close>

record ifc_file =
  file_name :: string
  file_size :: nat
  arrayBuffer :: "js_error + 8 word list"

text \<open>
  The optional progress callback. It is caller code: a call returns \<open>Some e\<close> when the
  callback throws \<open>e\<close>. \<^verbatim>\<open>onProgress?.(p)\<close> does nothing when no callback was passed.
\<close>

type_synonym progress_callback = "ifc_load_progress \<Rightarrow> js_error option"

definition emitProgress :: "progress_callback option \<Rightarrow> ifc_load_progress \<Rightarrow> unit io" where
  "emitProgress onProgress p =
     (case onProgress of
        None \<Rightarrow> succeed ()
      | Some cb \<Rightarrow> (case cb p of None \<Rightarrow> (Inr (), [Progress p]) | Some e \<Rightarrow> (Inl e, [Progress p])))"

text \<open>\<^verbatim>\<open>this.ifcApi!.CloseModel(modelID)\<close>; the event records the invocation.\<close>

definition closeModel :: "loader_state \<Rightarrow> nat \<Rightarrow> unit io" where
  "closeModel s modelID =
     (case ifcApi s of
        None \<Rightarrow> throw (PlainError ''TypeError'')
      | Some api \<Rightarrow>
          andThen (emit (CloseModelCalled modelID)) (\<lambda>_.
          (case CloseModel api modelID of Some e \<Rightarrow> throw e | None \<Rightarrow> succeed ())))"

definition openModel :: "loader_state \<Rightarrow> 8 word list \<Rightarrow> nat io" where
  "openModel s data =
     (case ifcApi s of
        None \<Rightarrow> throw (PlainError ''TypeError'')
      | Some api \<Rightarrow>
          andThen (call (OpenModel api data)) (\<lambda>modelID.
          andThen (emit (ModelOpened modelID)) (\<lambda>_.
          succeed modelID)))"

text \<open>The body of the \<^verbatim>\<open>try\<close> block of \<^verbatim>\<open>loadIfcFile\<close>, lines 66 to 132.\<close>

definition loadIfcFile_try ::
  "load_env \<Rightarrow> ifc_file \<Rightarrow> progress_callback option \<Rightarrow> loader_state \<Rightarrow> ifc_model io" where
  "loadIfcFile_try env file onProgress s =
     andThen (emitProgress onProgress
                \<lparr>percent = 10, message = ''Reading file...'', stage = reading\<rparr>) (\<lambda>_.
     andThen (call (arrayBuffer file)) (\<lambda>data.
     andThen (emitProgress onProgress
                \<lparr>percent = 30, message = ''Opening IFC model...'', stage = parsing\<rparr>) (\<lambda>_.
     andThen (openModel s data) (\<lambda>modelID.
     andThen (emitProgress onProgress
                \<lparr>percent = 50, message = ''Generating geometry...'', stage = geometry_stage\<rparr>) (\<lambda>_.
     andThen (generateGeometry s modelID) (\<lambda>meshes.
     andThen (succeed (Object3D (file_name file) IsGroup
                         (map (\<lambda>mesh. Object3D [] (IsMesh mesh) []) meshes))) (\<lambda>grp.
     andThen (emitProgress onProgress
                \<lparr>percent = 90, message = ''Finalizing...'', stage = rendering\<rparr>) (\<lambda>_.
     andThen (call (countVertices meshes)) (\<lambda>vertices.
     andThen (succeed \<lparr>metaId = generateModelId env,
                        fileName = file_name file,
                        fileSize = file_size file,
                        loadedAt = newDate env,
                        meshCount = length meshes,
                        vertexCount = vertices,
                        boundingBox = setFromObject env grp\<rparr>) (\<lambda>md.
     andThen (closeModel s modelID) (\<lambda>_.
     andThen (emitProgress onProgress
                \<lparr>percent = 100, message = ''Complete'', stage = complete\<rparr>) (\<lambda>_.
     andThen (emit (Log LogInfo ''IFC file loaded successfully'')) (\<lambda>_.
     succeed (newIfcModel grp md data))))))))))))))"

text \<open>
  The whole method: the precondition check, the first log call, the \<^verbatim>\<open>try\<close> block and the
  \<^verbatim>\<open>catch\<close> block. The call is taken as one step, with nothing running during its
  \<^verbatim>\<open>await file.arrayBuffer()\<close>. The method assigns to no field of the loader; the state is
  returned beside the result as for the other methods.
\<close>

definition loadIfcFile ::
  "load_env \<Rightarrow> ifc_file \<Rightarrow> progress_callback option \<Rightarrow> loader_state \<Rightarrow>
   (js_error + ifc_model) \<times> loader_state \<times> event list" where
  "loadIfcFile env file onProgress s =
     (case ensureInitialized s of
        Some e \<Rightarrow> (Inl e, s, [])
      | None \<Rightarrow>
          (case loadIfcFile_try env file onProgress s of
             (Inr model, t) \<Rightarrow> (Inr model, s, Log LogInfo ''Loading IFC file'' # t)
           | (Inl err, t) \<Rightarrow>
               (Inl (IfcLoadError (''Failed to load IFC file: '' @ file_name file) (Some err)
                       (Some [(''fileName'', CtxString (file_name file)),
                              (''fileSize'', CtxNumber (file_size file))])),
                s,
                Log LogInfo ''Loading IFC file'' # t @ [Log LogError ''Failed to load IFC file''])))"

text \<open>The progress events among a list of events, in order.\<close>

fun progressOf :: "event list \<Rightarrow> ifc_load_progress list" where
  "progressOf [] = []"
| "progressOf (Progress p # t) = p # progressOf t"
| "progressOf (_ # t) = progressOf t"

subsection \<open>States the loader can be in\<close>

text \<open>
  The states reachable from the initial one by the public methods, where a call of
  \<^verbatim>\<open>initialize\<close> is split at its suspension point so that other calls may run in between.
\<close>

inductive reachable :: "loader_state \<Rightarrow> bool" where
  reach_init: "reachable initialLoader"
| reach_begin: "reachable s \<Longrightarrow> initialize_begin config newApi s = (ph, s', t) \<Longrightarrow> reachable s'"
| reach_resume: "reachable s \<Longrightarrow> initialize_resume config settled s = (r, s', t) \<Longrightarrow> reachable s'"
| reach_load: "reachable s \<Longrightarrow> loadIfcFile env file onProgress s = (r, s', t) \<Longrightarrow> reachable s'"
| reach_dispose: "reachable s \<Longrightarrow> disposeLoader s = (s', t) \<Longrightarrow> reachable s'"

section \<open>The turns of the extraction loops\<close>

text \<open>
  The two nested loops of \<^verbatim>\<open>generateGeometry\<close> visit the placements in a fixed order. A
  turn is the pair of loop indices together with the flat mesh and the placement read at
  them; \<open>placementsOf\<close> lists the turns in the order of the loops.
\<close>

type_synonym turn = "nat \<times> flat_mesh \<times> nat \<times> placed_geometry option"

definition turnsFrom :: "nat \<Rightarrow> flat_mesh \<Rightarrow> nat \<Rightarrow> placed_geometry option list \<Rightarrow> turn list" where
  "turnsFrom i flatMesh j ps = map (\<lambda>(j', p). (i, flatMesh, j', p)) (enumerate j ps)"

definition placementsFrom :: "nat \<Rightarrow> flat_mesh list \<Rightarrow> turn list" where
  "placementsFrom i flatMeshes =
     concat (map (\<lambda>(i', fm). turnsFrom i' fm 0 (geometries fm)) (enumerate i flatMeshes))"

definition placementsOf :: "flat_mesh list \<Rightarrow> turn list" where
  "placementsOf flatMeshes = placementsFrom 0 flatMeshes"

text \<open>
  What the \<^verbatim>\<open>try\<close> block does at a turn. It throws, at whatever statement; it pushes
  meshes (none or one); it converts the placement when it pushes a mesh and ends without
  an exception. The warning is the message the \<^verbatim>\<open>catch\<close> block logs for the turn.
\<close>

fun throwsAt :: "ifc_api \<Rightarrow> nat \<Rightarrow> turn \<Rightarrow> bool" where
  "throwsAt api modelID (i, flatMesh, j, Some pg) =
     (case convertPlacement api modelID flatMesh pg of (Inl e, t) \<Rightarrow> True | (Inr u, t) \<Rightarrow> False)"
| "throwsAt api modelID (i, flatMesh, j, None) = False"

fun pushedAt :: "ifc_api \<Rightarrow> nat \<Rightarrow> turn \<Rightarrow> mesh_data list" where
  "pushedAt api modelID (i, flatMesh, j, Some pg) =
     pushedOf (snd (convertPlacement api modelID flatMesh pg))"
| "pushedAt api modelID (i, flatMesh, j, None) = []"

fun convertsAt :: "ifc_api \<Rightarrow> nat \<Rightarrow> turn \<Rightarrow> bool" where
  "convertsAt api modelID (i, flatMesh, j, Some pg) =
     (case convertPlacement api modelID flatMesh pg of
        (Inr u, t) \<Rightarrow> pushedOf t \<noteq> []
      | (Inl e, t) \<Rightarrow> False)"
| "convertsAt api modelID (i, flatMesh, j, None) = False"

definition warningOf :: "turn \<Rightarrow> event" where
  "warningOf tn =
     (case tn of (i, flatMesh, j, p) \<Rightarrow>
        Log LogWarn (''Error processing geometry '' @ numberToString j @
                     '' of mesh '' @ numberToString i))"

section \<open>Concrete inputs\<close>

text \<open>Small inputs on which the theorems below are run.\<close>

definition triangleVerts :: "js_number list" where
  "triangleVerts = map Num [0, 0, 0, 1, 0, 0, 0, 1, 0]"

definition identityMatrix :: "js_number list" where
  "identityMatrix = map Num [1, 0, 0, 0, 0, 1, 0, 0, 0, 0, 1, 0, 0, 0, 0, 1]"

definition exampleGeometry :: buffer_geometry where
  "exampleGeometry = \<lparr>position = Some triangleVerts, index = Some [0, 1, 2]\<rparr>"

definition exampleMaterial :: mesh_lambert_material where
  "exampleMaterial =
     \<lparr>color = (Num 1, Num 0, Num 0), side = DoubleSide, transparent = False,
      opacity = Num 1, depthWrite = True\<rparr>"

definition exampleMesh :: mesh_data where
  "exampleMesh =
     \<lparr>geometry = Some exampleGeometry, material = SingleMaterial exampleMaterial,
      userData = [(''ifcExpressID'', 7), (''geometryExpressID'', 11)],
      appliedMatrix = identityMatrix,
      frustumCulled = True, castShadow = True, receiveShadow = True\<rparr>"

definition exampleBox :: box3 where
  "exampleBox = ((Num 0, Num 0, Num 0), (Num 1, Num 1, Num 0))"

definition exampleMetadata :: ifc_model_metadata where
  "exampleMetadata =
     \<lparr>metaId = ''model-1-abc'', fileName = ''a.ifc'', fileSize = 3, loadedAt = 1,
      meshCount = 1, vertexCount = 3, boundingBox = exampleBox\<rparr>"

definition exampleModel :: ifc_model where
  "exampleModel =
     newIfcModel
       (Object3D ''a.ifc'' IsGroup
          [Object3D [] IsGroup [Object3D [] (IsMesh exampleMesh) []]])
       exampleMetadata [73, 70, 67]"

definition exampleConfig :: viewer_config where
  "exampleConfig = \<lparr>wasm_path = ''/wasm/'', wasm_useCdn = False\<rparr>"

text \<open>A placement with red above 1, green below 0, and the given finite alpha.\<close>

definition examplePlaced :: "nat \<Rightarrow> real \<Rightarrow> placed_geometry" where
  "examplePlaced gid alpha =
     \<lparr>placedColor = Color4 (Num (3 / 2)) (Num (- (1 / 5))) (Num (1 / 2)) (Num alpha),
      geometryExpressID = gid,
      flatTransformation = identityMatrix\<rparr>"

text \<open>A placement whose red channel and alpha are NaN.\<close>

definition nanPlaced :: placed_geometry where
  "nanPlaced =
     \<lparr>placedColor = Color4 NaN (Num 0) (Num 1) NaN, geometryExpressID = 11,
      flatTransformation = identityMatrix\<rparr>"

definition exampleFlatMeshes :: "flat_mesh list" where
  "exampleFlatMeshes =
     [\<lparr>expressID = 7, geometries = [Some (examplePlaced 11 1), Some (examplePlaced 13 1)]\<rparr>,
      \<lparr>expressID = 8, geometries = [Some (examplePlaced 14 (1 / 2))]\<rparr>]"

text \<open>
  An engine whose geometry 12 has an empty index array, whose geometry 13 cannot be read
  after it was acquired, whose geometry 15 throws when it is released, and whose other
  geometries are one triangle.
\<close>

definition exampleApi :: ifc_api where
  "exampleApi =
     \<lparr>SetWasmPath = (\<lambda>p. None),
      Init = None,
      OpenModel = (\<lambda>bytes. Inr 0),
      LoadAllGeometry = (\<lambda>modelID. Inr exampleFlatMeshes),
      GetGeometry = (\<lambda>modelID gid. Inr
        \<lparr>GetVertexData = Inr gid, GetVertexDataSize = Inr 9,
         GetIndexData = Inr gid, GetIndexDataSize = Inr 3,
         delete = (if gid = 15 then Some (PlainError ''BindingError'') else None)\<rparr>),
      GetVertexArray = (\<lambda>ptr n.
        if ptr = 13 then Inl (PlainError ''Array buffer allocation failed'')
        else Inr (Some triangleVerts)),
      GetIndexArray = (\<lambda>ptr n. if ptr = 12 then Inr (Some []) else Inr (Some [0, 1, 2])),
      CloseModel = (\<lambda>modelID. None)\<rparr>"

definition failingInitApi :: ifc_api where
  "failingInitApi = exampleApi\<lparr>Init := Some (PlainError ''wasm not found'')\<rparr>"

definition readyLoader :: loader_state where
  "readyLoader = \<lparr>ifcApi = Some exampleApi, isInitialized = True, isInitializing = False\<rparr>"

definition exampleEnv :: load_env where
  "exampleEnv =
     \<lparr>dateNow = 5, randomSuffix = ''k3x9q2m1z'', newDate = 5,
      setFromObject = (\<lambda>obj. exampleBox)\<rparr>"

definition exampleFile :: ifc_file where
  "exampleFile = \<lparr>file_name = ''a.ifc'', file_size = 3, arrayBuffer = Inr [73, 70, 67]\<rparr>"

definition quietCallback :: progress_callback where
  "quietCallback = (\<lambda>p. None)"

definition inflightLoader :: loader_state where
  "inflightLoader = \<lparr>ifcApi = Some exampleApi, isInitialized = False, isInitializing = True\<rparr>"

definition unreadableFile :: ifc_file where
  "unreadableFile = exampleFile\<lparr>arrayBuffer := Inl (PlainError ''NotReadableError'')\<rparr>"

definition abortingApi :: ifc_api where
  "abortingApi = exampleApi\<lparr>LoadAllGeometry := (\<lambda>modelID. Inl (PlainError ''RuntimeError: abort''))\<rparr>"

definition abortingLoader :: loader_state where
  "abortingLoader = \<lparr>ifcApi = Some abortingApi, isInitialized = True, isInitializing = False\<rparr>"

text \<open>
  Two placements of one flat mesh: the first converts, the second is built and pushed and
  then throws when its geometry is released.
\<close>

definition stickyFlatMesh :: flat_mesh where
  "stickyFlatMesh =
     \<lparr>expressID = 9, geometries = [Some (examplePlaced 11 1), Some (examplePlaced 15 1)]\<rparr>"

definition stickyApi :: ifc_api where
  "stickyApi = exampleApi\<lparr>LoadAllGeometry := (\<lambda>modelID. Inr [stickyFlatMesh])\<rparr>"

definition stickyLoader :: loader_state where
  "stickyLoader = \<lparr>ifcApi = Some stickyApi, isInitialized = True, isInitializing = False\<rparr>"

text \<open>
  The states of a run in which \<^verbatim>\<open>dispose()\<close> is called while a first \<^verbatim>\<open>initialize\<close> waits
  for its promise and a second \<^verbatim>\<open>initialize\<close> is started before the first one resumes:
  the second call in flight, the loader after the first promise has resolved, and the
  loader after the second promise has rejected.
\<close>

definition secondInflightLoader :: loader_state where
  "secondInflightLoader =
     \<lparr>ifcApi = Some failingInitApi, isInitialized = False, isInitializing = True\<rparr>"

definition resolvedLoader :: loader_state where
  "resolvedLoader =
     \<lparr>ifcApi = Some failingInitApi, isInitialized = True, isInitializing = False\<rparr>"

definition stuckLoader :: loader_state where
  "stuckLoader = \<lparr>ifcApi = None, isInitialized = True, isInitializing = False\<rparr>"

section \<open>Evaluation on the concrete inputs\<close>

lemma numberToString_digit: "n < 10 \<Longrightarrow> numberToString n = [''0123456789'' ! n]"
  by (simp add: numberToString.simps)

lemmas io_defs = succeed_def throw_def emit_def call_def andThen_def

lemma ready_simps:
  "ifcApi readyLoader = Some exampleApi" "isInitialized readyLoader" "\<not> isInitializing readyLoader"
  by (simp_all add: readyLoader_def)

lemma inflight_simps:
  "ifcApi inflightLoader = Some exampleApi" "\<not> isInitialized inflightLoader"
  "isInitializing inflightLoader"
  by (simp_all add: inflightLoader_def)

lemma initial_simps:
  "ifcApi initialLoader = None" "\<not> isInitialized initialLoader" "\<not> isInitializing initialLoader"
  by (simp_all add: initialLoader_def)

lemma ex_begin: "initialize_begin exampleConfig (Inr exampleApi) initialLoader =
     (Awaiting None, \<lparr>ifcApi = Some exampleApi, isInitialized = False, isInitializing = True\<rparr>,
      [Log LogInfo ''Initializing IFC Loader'', ApiCreated, WasmPathSet ''/wasm/'', InitCalled])"
  by (simp add: initialize_begin_def initialLoader_def exampleApi_def exampleConfig_def Let_def)

lemma ex_begin_inflight:
  "initialize_begin exampleConfig (Inr exampleApi) initialLoader =
     (Awaiting None, inflightLoader,
      [Log LogInfo ''Initializing IFC Loader'', ApiCreated, WasmPathSet ''/wasm/'', InitCalled])"
  by (simp add: ex_begin inflightLoader_def)

lemma ex_init: "initialize exampleConfig (Inr exampleApi) initialLoader =
     (Inr (), readyLoader,
      [Log LogInfo ''Initializing IFC Loader'', ApiCreated, WasmPathSet ''/wasm/'', InitCalled,
       Log LogInfo ''IFC Loader initialized successfully''])"
  by (simp add: initialize_def ex_begin initialize_resume_def readyLoader_def)

lemma ex_init_fail: "initialize exampleConfig (Inr failingInitApi) initialLoader =
     (Inl (WasmLoadError ''Failed to initialize web-ifc WASM module''
             (Some (PlainError ''wasm not found'')) (Some [(''wasmPath'', CtxString ''/wasm/'')])),
      initialLoader,
      [Log LogInfo ''Initializing IFC Loader'', ApiCreated, WasmPathSet ''/wasm/'', InitCalled,
       Log LogError ''Failed to initialize IFC Loader''])"
  by (simp add: initialize_def initialize_begin_def initialLoader_def exampleApi_def
      failingInitApi_def exampleConfig_def Let_def initialize_resume_def initialize_catch_def)

lemma triangleVerts_length: "length triangleVerts = 9"
  by (simp add: triangleVerts_def)

lemma ex_convert_11:
  "convertPlacement exampleApi 0 fm (examplePlaced 11 al) =
     (Inr (),
      [GeometryAcquired 11, MeshPushed (buildMesh fm (examplePlaced 11 al) triangleVerts [0, 1, 2]),
       GeometryDeleted 11])"
  by (simp add: convertPlacement_def releaseGeometry_def exampleApi_def examplePlaced_def
      triangleVerts_length io_defs)

lemma ex_convert_14:
  "convertPlacement exampleApi 0 fm (examplePlaced 14 al) =
     (Inr (),
      [GeometryAcquired 14, MeshPushed (buildMesh fm (examplePlaced 14 al) triangleVerts [0, 1, 2]),
       GeometryDeleted 14])"
  by (simp add: convertPlacement_def releaseGeometry_def exampleApi_def examplePlaced_def
      triangleVerts_length io_defs)

lemma ex_convert_13:
  "convertPlacement exampleApi 0 fm (examplePlaced 13 al) =
     (Inl (PlainError ''Array buffer allocation failed''), [GeometryAcquired 13])"
  by (simp add: convertPlacement_def exampleApi_def examplePlaced_def io_defs)

lemma ex_convert_12:
  "convertPlacement exampleApi 0 fm (examplePlaced 12 al) =
     (Inr (), [GeometryAcquired 12, GeometryDeleted 12])"
  by (simp add: convertPlacement_def releaseGeometry_def exampleApi_def examplePlaced_def
      triangleVerts_length io_defs)

lemma ex_convert_15:
  "convertPlacement exampleApi 0 fm (examplePlaced 15 al) =
     (Inl (PlainError ''BindingError''),
      [GeometryAcquired 15, MeshPushed (buildMesh fm (examplePlaced 15 al) triangleVerts [0, 1, 2]),
       GeometryDeleted 15])"
  by (simp add: convertPlacement_def releaseGeometry_def exampleApi_def examplePlaced_def
      triangleVerts_length io_defs)

lemma ex_convert_nan:
  "convertPlacement exampleApi 0 fm nanPlaced =
     (Inr (),
      [GeometryAcquired 11, MeshPushed (buildMesh fm nanPlaced triangleVerts [0, 1, 2]),
       GeometryDeleted 11])"
  by (simp add: convertPlacement_def releaseGeometry_def exampleApi_def nanPlaced_def
      triangleVerts_length io_defs)

lemma sticky_convert:
  "convertPlacement stickyApi 0 fm pg = convertPlacement exampleApi 0 fm pg"
  by (simp add: convertPlacement_def stickyApi_def)

lemma ex_loadAll: "LoadAllGeometry exampleApi 0 = Inr exampleFlatMeshes"
  by (simp add: exampleApi_def)

lemma ex_generate:
  "generateGeometry readyLoader 0 =
     (Inr [buildMesh \<lparr>expressID = 7, geometries = [Some (examplePlaced 11 1), Some (examplePlaced 13 1)]\<rparr>
             (examplePlaced 11 1) triangleVerts [0, 1, 2],
           buildMesh \<lparr>expressID = 8, geometries = [Some (examplePlaced 14 (1 / 2))]\<rparr>
             (examplePlaced 14 (1 / 2)) triangleVerts [0, 1, 2]],
      [GeometryAcquired 11,
       MeshPushed (buildMesh
         \<lparr>expressID = 7, geometries = [Some (examplePlaced 11 1), Some (examplePlaced 13 1)]\<rparr>
         (examplePlaced 11 1) triangleVerts [0, 1, 2]),
       GeometryDeleted 11, GeometryAcquired 13,
       Log LogWarn ''Error processing geometry 1 of mesh 0'',
       GeometryAcquired 14,
       MeshPushed (buildMesh \<lparr>expressID = 8, geometries = [Some (examplePlaced 14 (1 / 2))]\<rparr>
         (examplePlaced 14 (1 / 2)) triangleVerts [0, 1, 2]),
       GeometryDeleted 14,
       Log LogDebug ''Generated 2 meshes from IFC model''])"
  by (simp add: generateGeometry_def readyLoader_def ex_loadAll exampleFlatMeshes_def
      processPlacement_def ex_convert_11 ex_convert_13 ex_convert_14 numberToString_digit io_defs)

lemma ex_load:
  "\<exists>model t. loadIfcFile exampleEnv exampleFile (Some quietCallback) readyLoader =
       (Inr model, readyLoader, t)
     \<and> meshCount (metadata model) = 2
     \<and> length (children (priv_modelGroup model)) = 2
     \<and> Log LogWarn ''Error processing geometry 1 of mesh 0'' \<in> set t
     \<and> CloseModelCalled 0 \<in> set t"
  by (simp add: loadIfcFile_def ensureInitialized_def ready_simps loadIfcFile_try_def
      emitProgress_def quietCallback_def exampleFile_def openModel_def closeModel_def
      ex_generate io_defs exampleApi_def countVertices_def buildMesh_def Let_def
      metadata_def newIfcModel_def)

lemma ex_load_unreadable:
  "loadIfcFile exampleEnv unreadableFile None readyLoader =
     (Inl (IfcLoadError ''Failed to load IFC file: a.ifc'' (Some (PlainError ''NotReadableError''))
             (Some [(''fileName'', CtxString ''a.ifc''), (''fileSize'', CtxNumber 3)])),
      readyLoader,
      [Log LogInfo ''Loading IFC file'', Log LogError ''Failed to load IFC file''])"
  by (simp add: loadIfcFile_def ensureInitialized_def ready_simps loadIfcFile_try_def
      emitProgress_def unreadableFile_def exampleFile_def io_defs)

lemma ex_placements:
  "placementsOf exampleFlatMeshes =
     [(0, \<lparr>expressID = 7, geometries = [Some (examplePlaced 11 1), Some (examplePlaced 13 1)]\<rparr>,
       0, Some (examplePlaced 11 1)),
      (0, \<lparr>expressID = 7, geometries = [Some (examplePlaced 11 1), Some (examplePlaced 13 1)]\<rparr>,
       1, Some (examplePlaced 13 1)),
      (1, \<lparr>expressID = 8, geometries = [Some (examplePlaced 14 (1 / 2))]\<rparr>,
       0, Some (examplePlaced 14 (1 / 2)))]"
  by (simp add: placementsOf_def placementsFrom_def turnsFrom_def exampleFlatMeshes_def)


lemma sticky_placements:
  "placementsOf [stickyFlatMesh] =
     [(0, stickyFlatMesh, 0, Some (examplePlaced 11 1)),
      (0, stickyFlatMesh, 1, Some (examplePlaced 15 1))]"
  by (simp add: placementsOf_def placementsFrom_def turnsFrom_def stickyFlatMesh_def)

lemma sticky_simps:
  "ifcApi stickyLoader = Some stickyApi" "isInitialized stickyLoader"
  "OpenModel stickyApi bytes = Inr 0" "CloseModel stickyApi modelID = None"
  by (simp_all add: stickyLoader_def stickyApi_def exampleApi_def)

lemma sticky_generate:
  "generateGeometry stickyLoader 0 =
     (Inr [buildMesh stickyFlatMesh (examplePlaced 11 1) triangleVerts [0, 1, 2],
           buildMesh stickyFlatMesh (examplePlaced 15 1) triangleVerts [0, 1, 2]],
      [GeometryAcquired 11,
       MeshPushed (buildMesh stickyFlatMesh (examplePlaced 11 1) triangleVerts [0, 1, 2]),
       GeometryDeleted 11,
       GeometryAcquired 15,
       MeshPushed (buildMesh stickyFlatMesh (examplePlaced 15 1) triangleVerts [0, 1, 2]),
       GeometryDeleted 15,
       Log LogWarn ''Error processing geometry 1 of mesh 0'',
       Log LogDebug ''Generated 2 meshes from IFC model''])"
proof -
  have g: "geometries stickyFlatMesh = [Some (examplePlaced 11 1), Some (examplePlaced 15 1)]"
    by (simp add: stickyFlatMesh_def)
  have l: "LoadAllGeometry stickyApi 0 = Inr [stickyFlatMesh]"
    by (simp add: stickyApi_def)
  show ?thesis
    by (simp add: generateGeometry_def stickyLoader_def l g processPlacement_def sticky_convert
        ex_convert_11 ex_convert_15 numberToString_digit io_defs)
qed

section \<open>Numbers\<close>

lemma clamp_not_NaN:
  "x \<noteq> NaN \<Longrightarrow> inUnitInterval (Math_max (Num 0) (Math_min (Num 1) x))"
  by (cases x) (auto simp: inUnitInterval_def jsGreaterEq_def Math_max_def Math_min_def)

lemma clamp_finite:
  "Math_max (Num 0) (Math_min (Num 1) (Num v)) = Num (max 0 (min 1 v))"
  by (auto simp: Math_max_def Math_min_def)

section \<open>Sequencing and progress events\<close>

lemma progressOf_append: "progressOf (a @ b) = progressOf a @ progressOf b"
  by (induction a rule: progressOf.induct) simp_all

lemma andThen_InrE:
  assumes "andThen m f = (Inr y, t)"
  obtains x t1 t2 where "m = (Inr x, t1)" "f x = (Inr y, t2)" "t = t1 @ t2"
  using assms by (auto simp: andThen_def split: prod.splits sum.splits)

lemma quiet_andThen:
  assumes "progressOf (snd m) = []" "\<And>x. progressOf (snd (f x)) = []"
  shows "progressOf (snd (andThen m f)) = []"
proof (cases m)
  case (Pair r t)
  show ?thesis
  proof (cases r)
    case (Inl e)
    with Pair assms(1) show ?thesis by (simp add: andThen_def)
  next
    case (Inr x)
    obtain r' t' where f: "f x = (r', t')" by (cases "f x")
    from assms(2)[of x] f have "progressOf t' = []" by simp
    with Pair Inr f assms(1) show ?thesis by (simp add: andThen_def progressOf_append)
  qed
qed

lemma quiet_releaseGeometry: "progressOf (snd (releaseGeometry gid geom)) = []"
  by (auto simp: releaseGeometry_def throw_def emit_def succeed_def
      intro!: quiet_andThen split: option.splits)

lemma quiet_convertPlacement:
  "progressOf (snd (convertPlacement api modelID flatMesh placedGeometry)) = []"
  unfolding convertPlacement_def
  by (intro quiet_andThen)
    (auto simp: call_def emit_def succeed_def quiet_releaseGeometry
      intro!: quiet_andThen split: option.splits)

lemma quiet_processPlacement:
  "progressOf (snd (processPlacement api modelID i flatMesh j placed)) = []"
proof (cases placed)
  case None
  then show ?thesis by (simp add: processPlacement_def)
next
  case (Some pg)
  obtain r t where c: "convertPlacement api modelID flatMesh pg = (r, t)"
    by (cases "convertPlacement api modelID flatMesh pg")
  with quiet_convertPlacement[of api modelID flatMesh pg] have "progressOf t = []" by simp
  with Some c show ?thesis
    by (simp add: processPlacement_def progressOf_append split: sum.splits)
qed

lemma quiet_geometriesLoop:
  "progressOf (snd (geometriesLoop api modelID i flatMesh j ps)) = []"
proof (induction ps arbitrary: j)
  case Nil
  then show ?case by simp
next
  case (Cons p ps)
  from quiet_processPlacement[of api modelID i flatMesh j p] Cons.IH[of "Suc j"]
  show ?case by (auto simp: progressOf_append split: prod.splits)
qed

lemma quiet_flatMeshesLoop:
  "progressOf (snd (flatMeshesLoop api modelID i fms)) = []"
proof (induction fms arbitrary: i)
  case Nil
  then show ?case by simp
next
  case (Cons fm fms)
  from quiet_geometriesLoop[of api modelID i fm 0 "geometries fm"] Cons.IH[of "Suc i"]
  show ?case by (auto simp: progressOf_append split: prod.splits)
qed

lemma quiet_generateGeometry: "progressOf (snd (generateGeometry s modelID)) = []"
proof (cases "ifcApi s")
  case None
  then show ?thesis by (simp add: generateGeometry_def throw_def)
next
  case (Some api)
  have "progressOf (snd (case flatMeshesLoop api modelID 0 fms of
          (meshes, t) \<Rightarrow> (Inr meshes :: js_error + mesh_data list,
             t @ [Log LogDebug (''Generated '' @ numberToString (length meshes) @
                                 '' meshes from IFC model'')]))) = []" for fms
    using quiet_flatMeshesLoop[of api modelID 0 fms]
    by (auto simp: progressOf_append split: prod.splits)
  with Some show ?thesis
    by (simp add: generateGeometry_def quiet_andThen call_def)
qed

lemma quiet_openModel: "progressOf (snd (openModel s data)) = []"
  by (auto simp: openModel_def throw_def call_def emit_def succeed_def
      intro!: quiet_andThen split: option.splits)

lemma quiet_closeModel: "progressOf (snd (closeModel s modelID)) = []"
  by (auto simp: closeModel_def throw_def call_def emit_def succeed_def
      intro!: quiet_andThen split: option.splits)

lemma emitProgress_Some_Inr:
  "emitProgress (Some cb) p = (Inr u, t) \<Longrightarrow> t = [Progress p]"
  by (auto simp: emitProgress_def split: option.splits)

lemma openModel_quietD: "openModel s data = (r, t) \<Longrightarrow> progressOf t = []"
  using quiet_openModel[of s data] by simp

lemma closeModel_quietD: "closeModel s modelID = (r, t) \<Longrightarrow> progressOf t = []"
  using quiet_closeModel[of s modelID] by simp

lemma generateGeometry_quietD: "generateGeometry s modelID = (r, t) \<Longrightarrow> progressOf t = []"
  using quiet_generateGeometry[of s modelID] by simp

lemma loadIfcFile_try_progress:
  assumes "loadIfcFile_try env file (Some cb) s = (Inr model, t)"
  shows "progressOf t =
     [\<lparr>percent = 10, message = ''Reading file...'', stage = reading\<rparr>,
      \<lparr>percent = 30, message = ''Opening IFC model...'', stage = parsing\<rparr>,
      \<lparr>percent = 50, message = ''Generating geometry...'', stage = geometry_stage\<rparr>,
      \<lparr>percent = 90, message = ''Finalizing...'', stage = rendering\<rparr>,
      \<lparr>percent = 100, message = ''Complete'', stage = complete\<rparr>]"
  using assms unfolding loadIfcFile_try_def
  apply (elim andThen_InrE)
  apply (auto simp: progressOf_append call_def succeed_def emit_def
      dest!: emitProgress_Some_Inr openModel_quietD closeModel_quietD generateGeometry_quietD)
  done

section \<open>The extraction loops\<close>

lemma pushedOf_append: "pushedOf (a @ b) = pushedOf a @ pushedOf b"
  by (induction a rule: pushedOf.induct) simp_all

lemma andThen_events:
  "snd (andThen m f) = snd m @ (case fst m of Inl e \<Rightarrow> [] | Inr x \<Rightarrow> snd (f x))"
  by (cases m) (auto simp: andThen_def split: sum.splits prod.splits)

lemma andThen_pushes_later:
  assumes "pushedOf (snd m) = []" "\<And>x. P (pushedOf (snd (f x)))" "P []"
  shows "P (pushedOf (snd (andThen m f)))"
  using assms by (cases "fst m") (simp_all add: andThen_events pushedOf_append)

lemma releaseGeometry_pushes: "pushedOf (snd (releaseGeometry gid geom)) = []"
  by (simp add: releaseGeometry_def io_defs split: option.splits)

text \<open>A turn pushes nothing, or the one mesh built from non-empty arrays.\<close>

lemma convertPlacement_pushes:
  "pushedOf (snd (convertPlacement api modelID fm pg)) = []
   \<or> (\<exists>vs ixs. pushedOf (snd (convertPlacement api modelID fm pg)) = [buildMesh fm pg vs ixs]
         \<and> vs \<noteq> [] \<and> ixs \<noteq> [])"
  unfolding convertPlacement_def
  apply (intro andThen_pushes_later [where P = "\<lambda>ms. ms = [] \<or> (\<exists>vs ixs. ms = [buildMesh fm pg vs ixs]
         \<and> vs \<noteq> [] \<and> ixs \<noteq> [])"])
  apply (auto simp: call_def emit_def succeed_def releaseGeometry_pushes andThen_events
      pushedOf_append split: option.splits)
  done

lemma pushedAt_cases:
  "pushedAt api modelID tn = []
   \<or> (\<exists>mesh. pushedAt api modelID tn = [mesh] \<and> geometry mesh \<noteq> None)"
proof -
  obtain i fm j p where tn: "tn = (i, fm, j, p)" by (cases tn) auto
  show ?thesis
  proof (cases p)
    case None
    with tn show ?thesis by simp
  next
    case (Some pg)
    from convertPlacement_pushes[of api modelID fm pg] tn Some show ?thesis
      by (auto simp: buildMesh_def Let_def)
  qed
qed

lemma processPlacement_pushed:
  "fst (processPlacement api modelID i fm j p) = pushedAt api modelID (i, fm, j, p)"
  by (cases p) (auto simp: processPlacement_def split: prod.splits sum.splits)

lemma processPlacement_warns:
  "throwsAt api modelID (i, fm, j, p) \<Longrightarrow>
     warningOf (i, fm, j, p) \<in> set (snd (processPlacement api modelID i fm j p))"
  by (cases p) (auto simp: processPlacement_def warningOf_def split: prod.splits sum.splits)

lemma geometriesLoop_pushed:
  "fst (geometriesLoop api modelID i fm j ps) =
     concat (map (pushedAt api modelID) (turnsFrom i fm j ps))"
proof (induction ps arbitrary: j)
  case Nil
  then show ?case by (simp add: turnsFrom_def)
next
  case (Cons p ps)
  from Cons.IH[of "Suc j"] processPlacement_pushed[of api modelID i fm j p]
  show ?case by (auto simp: turnsFrom_def split: prod.splits)
qed

lemma geometriesLoop_warns:
  "tn \<in> set (turnsFrom i fm j ps) \<Longrightarrow> throwsAt api modelID tn \<Longrightarrow>
     warningOf tn \<in> set (snd (geometriesLoop api modelID i fm j ps))"
proof (induction ps arbitrary: j)
  case Nil
  then show ?case by (simp add: turnsFrom_def)
next
  case (Cons p ps)
  from Cons.prems(1) consider "tn = (i, fm, j, p)" | "tn \<in> set (turnsFrom i fm (Suc j) ps)"
    by (auto simp: turnsFrom_def)
  then show ?case
  proof cases
    case 1
    with Cons.prems(2) processPlacement_warns[of api modelID i fm j p]
    show ?thesis by (auto split: prod.splits)
  next
    case 2
    with Cons.IH[of "Suc j"] Cons.prems(2) show ?thesis by (auto split: prod.splits)
  qed
qed

lemma flatMeshesLoop_pushed:
  "fst (flatMeshesLoop api modelID i fms) =
     concat (map (pushedAt api modelID) (placementsFrom i fms))"
proof (induction fms arbitrary: i)
  case Nil
  then show ?case by (simp add: placementsFrom_def)
next
  case (Cons fm fms)
  from Cons.IH[of "Suc i"] geometriesLoop_pushed[of api modelID i fm 0 "geometries fm"]
  show ?case by (auto simp: placementsFrom_def split: prod.splits)
qed

lemma flatMeshesLoop_warns:
  "tn \<in> set (placementsFrom i fms) \<Longrightarrow> throwsAt api modelID tn \<Longrightarrow>
     warningOf tn \<in> set (snd (flatMeshesLoop api modelID i fms))"
proof (induction fms arbitrary: i)
  case Nil
  then show ?case by (simp add: placementsFrom_def)
next
  case (Cons fm fms)
  from Cons.prems(1) consider "tn \<in> set (turnsFrom i fm 0 (geometries fm))"
    | "tn \<in> set (placementsFrom (Suc i) fms)"
    by (auto simp: placementsFrom_def)
  then show ?case
  proof cases
    case 1
    with Cons.prems(2) geometriesLoop_warns[of tn i fm 0 "geometries fm" api modelID]
    show ?thesis by (auto split: prod.splits)
  next
    case 2
    with Cons.IH[of "Suc i"] Cons.prems(2) show ?thesis by (auto split: prod.splits)
  qed
qed

lemma flatMeshesLoop_geometry:
  "mesh \<in> set (fst (flatMeshesLoop api modelID i fms)) \<Longrightarrow> geometry mesh \<noteq> None"
proof -
  assume "mesh \<in> set (fst (flatMeshesLoop api modelID i fms))"
  then obtain tn where "mesh \<in> set (pushedAt api modelID tn)"
    by (auto simp: flatMeshesLoop_pushed)
  with pushedAt_cases[of api modelID tn] show ?thesis by auto
qed

lemma pushed_is_built:
  assumes "mesh \<in> set (pushedOf (snd (convertPlacement api modelID flatMesh pg)))"
  shows "\<exists>vs ixs. mesh = buildMesh flatMesh pg vs ixs"
proof -
  from assms have "pushedOf (snd (convertPlacement api modelID flatMesh pg)) \<noteq> []"
    by auto
  with convertPlacement_pushes[of api modelID flatMesh pg] obtain vs ixs where
    "pushedOf (snd (convertPlacement api modelID flatMesh pg)) = [buildMesh flatMesh pg vs ixs]"
    by blast
  with assms have "mesh = buildMesh flatMesh pg vs ixs" by simp
  then show ?thesis by blast
qed

lemma convertsAt_pushes_one:
  "convertsAt api modelID tn \<Longrightarrow> length (pushedAt api modelID tn) = 1"
proof -
  assume c: "convertsAt api modelID tn"
  obtain i fm j p where tn: "tn = (i, fm, j, p)" by (cases tn) auto
  from c tn have "pushedAt api modelID tn \<noteq> []"
    by (cases p) (auto split: prod.splits sum.splits)
  with pushedAt_cases[of api modelID tn] show ?thesis by auto
qed

lemma count_all_but:
  "sum_list (map (\<lambda>x. if P x then 0 else (1::nat)) xs) = length xs - length (filter P xs)"
proof (induction xs)
  case Nil
  then show ?case by simp
next
  case (Cons x xs)
  have "length (filter P xs) \<le> length xs" by simp
  with Cons show ?case by simp
qed

text \<open>
  The count of the meshes when every turn either throws before it has pushed anything or
  converts its placement.
\<close>

lemma pushed_count:
  assumes "\<forall>tn \<in> set tns. throwsAt api modelID tn \<longrightarrow> pushedAt api modelID tn = []"
    "\<forall>tn \<in> set tns. \<not> throwsAt api modelID tn \<longrightarrow> convertsAt api modelID tn"
  shows "length (concat (map (pushedAt api modelID) tns)) =
     length tns - length (filter (throwsAt api modelID) tns)"
proof -
  have "length (pushedAt api modelID tn) = (if throwsAt api modelID tn then 0 else 1)"
    if "tn \<in> set tns" for tn
    using that assms convertsAt_pushes_one by auto
  then have "map (\<lambda>tn. length (pushedAt api modelID tn)) tns =
      map (\<lambda>tn. if throwsAt api modelID tn then 0 else 1) tns"
    by simp
  then have "sum_list (map (\<lambda>tn. length (pushedAt api modelID tn)) tns) =
      length tns - length (filter (throwsAt api modelID) tns)"
    by (simp only: count_all_but)
  then show ?thesis
    by (simp add: length_concat comp_def)
qed

lemma countVerticesFrom_total:
  "\<forall>mesh \<in> set meshes. geometry mesh \<noteq> None \<Longrightarrow> \<exists>v. countVerticesFrom c meshes = Inr v"
  by (induction meshes arbitrary: c) (auto split: option.splits)

lemma generateGeometry_loop:
  assumes "ifcApi s = Some api" "LoadAllGeometry api modelID = Inr flatMeshes"
  shows "generateGeometry s modelID =
     (Inr (fst (flatMeshesLoop api modelID 0 flatMeshes)),
      snd (flatMeshesLoop api modelID 0 flatMeshes) @
      [Log LogDebug (''Generated '' @
         numberToString (length (fst (flatMeshesLoop api modelID 0 flatMeshes))) @
         '' meshes from IFC model'')])"
  using assms by (simp add: generateGeometry_def io_defs split: prod.splits)

section \<open>Initialization and loader state\<close>

lemma initialize_catch_state:
  "initialize_catch config err s = (e, s', t) \<Longrightarrow>
     ifcApi s' = None \<and> \<not> isInitializing s' \<and> isInitialized s' = isInitialized s
     \<and> e = AppError ''WasmLoadError'' WASM_LOAD_FAILED ''Failed to initialize web-ifc WASM module''
           (getDefaultUserMessage WASM_LOAD_FAILED) False
           (Some [(''wasmPath'', CtxString (wasm_path config))]) (Some err)"
  by (auto simp: initialize_catch_def WasmLoadError_def newAppError_def)

lemma initialize_failure:
  assumes "\<not> isInitializing s" "initialize config newApi s = (Inl e, s', t)"
  shows "ifcApi s' = None \<and> \<not> isInitialized s' \<and> \<not> isInitializing s'
     \<and> (\<exists>err. e = AppError ''WasmLoadError'' WASM_LOAD_FAILED
           ''Failed to initialize web-ifc WASM module''
           (getDefaultUserMessage WASM_LOAD_FAILED) False
           (Some [(''wasmPath'', CtxString (wasm_path config))]) (Some err))"
proof (cases "isInitialized s")
  case True
  with assms show ?thesis by (simp add: initialize_def initialize_begin_def)
next
  case False
  show ?thesis
  proof (cases newApi)
    case (Inl err)
    with assms False show ?thesis
      by (auto simp: initialize_def initialize_begin_def Let_def
          dest!: initialize_catch_state split: prod.splits)
  next
    case (Inr api)
    show ?thesis
    proof (cases "SetWasmPath api (wasm_path config)")
      case (Some err)
      with assms False Inr show ?thesis
        by (auto simp: initialize_def initialize_begin_def Let_def
            dest!: initialize_catch_state split: prod.splits)
    next
      case None
      with assms False Inr show ?thesis
        by (auto simp: initialize_def initialize_begin_def initialize_resume_def Let_def
            dest!: initialize_catch_state split: prod.splits option.splits)
    qed
  qed
qed

lemma initialize_success:
  assumes "\<not> isInitializing s" "initialize config newApi s = (Inr u, s', t)"
  shows "isInitialized s' \<and> \<not> isInitializing s'"
  using assms
  by (auto simp: initialize_def initialize_begin_def initialize_resume_def Let_def
      initialize_catch_def split: if_splits sum.splits option.splits prod.splits)

lemma initialize_begin_awaiting:
  assumes "initialize_begin config newApi s = (Awaiting settled, s1, t1)"
  shows "isInitializing s1 \<and> \<not> isInitialized s1 \<and> \<not> isInitializing s \<and> \<not> isInitialized s"
  using assms
  by (auto simp: initialize_begin_def Let_def initialize_catch_def
      split: if_splits sum.splits option.splits prod.splits)

text \<open>
  What holds of a call of \<^verbatim>\<open>initialize\<close> that nothing interleaves with, and of the state
  a call is suspended in.
\<close>

lemma initialize_uninterleaved:
  "(isInitialized s \<and> \<not> isInitializing s \<longrightarrow>
      initialize config newApi s = (Inr (), s, [Log LogDebug ''IFC Loader already initialized'']))
   \<and> (isInitializing s \<longrightarrow>
      initialize config newApi s =
        (Inl (PlainError ''IFC Loader initialization already in progress''), s, []))
   \<and> (\<not> isInitializing s \<and> initialize config newApi s = (Inr (), s', t) \<longrightarrow>
      isInitialized s' \<and> \<not> isInitializing s'
      \<and> initialize config' newApi' s' =
          (Inr (), s', [Log LogDebug ''IFC Loader already initialized'']))
   \<and> (\<not> isInitializing s \<and> initialize config newApi s = (Inl e, s', t) \<longrightarrow>
      ifcApi s' = None \<and> \<not> isInitialized s' \<and> \<not> isInitializing s'
      \<and> (\<exists>err. e = AppError ''WasmLoadError'' WASM_LOAD_FAILED
             ''Failed to initialize web-ifc WASM module''
             (getDefaultUserMessage WASM_LOAD_FAILED) False
             (Some [(''wasmPath'', CtxString (wasm_path config))]) (Some err)))
   \<and> (initialize_begin config newApi s = (Awaiting settled, sMid, tMid) \<longrightarrow>
      isInitializing sMid
      \<and> initialize_begin config' newApi' sMid =
          (Rejected (PlainError ''IFC Loader initialization already in progress''), sMid, [])
      \<and> initialize_resume config None sMid =
          (Inr (), sMid\<lparr>isInitialized := True, isInitializing := False\<rparr>,
           [Log LogInfo ''IFC Loader initialized successfully'']))"
proof -
  have a: "initialize config newApi s = (Inr (), s, [Log LogDebug ''IFC Loader already initialized''])"
    if "isInitialized s \<and> \<not> isInitializing s"
    using that by (simp add: initialize_def initialize_begin_def)
  have b: "initialize config newApi s =
        (Inl (PlainError ''IFC Loader initialization already in progress''), s, [])"
    if "isInitializing s"
    using that by (simp add: initialize_def initialize_begin_def)
  have c: "isInitialized s' \<and> \<not> isInitializing s'
      \<and> initialize config' newApi' s' =
          (Inr (), s', [Log LogDebug ''IFC Loader already initialized''])"
    if "\<not> isInitializing s \<and> initialize config newApi s = (Inr (), s', t)"
  proof -
    have "isInitialized s' \<and> \<not> isInitializing s'"
      using that initialize_success by blast
    then show ?thesis by (simp add: initialize_def initialize_begin_def)
  qed
  have d: "ifcApi s' = None \<and> \<not> isInitialized s' \<and> \<not> isInitializing s'
      \<and> (\<exists>err. e = AppError ''WasmLoadError'' WASM_LOAD_FAILED
             ''Failed to initialize web-ifc WASM module''
             (getDefaultUserMessage WASM_LOAD_FAILED) False
             (Some [(''wasmPath'', CtxString (wasm_path config))]) (Some err))"
    if "\<not> isInitializing s \<and> initialize config newApi s = (Inl e, s', t)"
    using that initialize_failure by blast
  have e: "isInitializing sMid
      \<and> initialize_begin config' newApi' sMid =
          (Rejected (PlainError ''IFC Loader initialization already in progress''), sMid, [])
      \<and> initialize_resume config None sMid =
          (Inr (), sMid\<lparr>isInitialized := True, isInitializing := False\<rparr>,
           [Log LogInfo ''IFC Loader initialized successfully''])"
    if "initialize_begin config newApi s = (Awaiting settled, sMid, tMid)"
  proof -
    have "isInitializing sMid" using that initialize_begin_awaiting by blast
    then show ?thesis by (simp add: initialize_begin_def initialize_resume_def)
  qed
  from a b c d e show ?thesis by blast
qed


section \<open>Model disposal\<close>

lemma disposeObject_mesh_geometry:
  "kind x = IsMesh m \<Longrightarrow> geometry m = Some g \<Longrightarrow> GeometryDisposed g \<in> set (disposeObject x)"
  by (simp add: disposeObject_def)

lemma disposeObject_mesh_material:
  "kind x = IsMesh m \<Longrightarrow> mat \<in> set (materialsOf m) \<Longrightarrow> MaterialDisposed mat \<in> set (disposeObject x)"
  by (auto simp: disposeObject_def materialsOf_def split: mesh_material.splits)

lemma meshesOf_traverse:
  "m \<in> set (meshesOf obj) \<Longrightarrow> \<exists>x \<in> set (traverse obj). kind x = IsMesh m"
  by (auto simp: meshesOf_def split: object_kind.splits)

lemma dispose_releases_geometry:
  assumes "\<not> priv_disposed mdl" "m \<in> set (meshesOf (priv_modelGroup mdl))" "geometry m = Some g"
  shows "GeometryDisposed g \<in> set (snd (dispose mdl))"
proof -
  from assms(2) obtain x where x: "x \<in> set (traverse (priv_modelGroup mdl))" "kind x = IsMesh m"
    using meshesOf_traverse by blast
  have "GeometryDisposed g \<in> set (disposeObject x)"
    using x(2) assms(3) by (rule disposeObject_mesh_geometry)
  with x(1) show ?thesis using assms(1) by (auto simp: dispose_def)
qed

lemma dispose_releases_material:
  assumes "\<not> priv_disposed mdl" "m \<in> set (meshesOf (priv_modelGroup mdl))"
    "mat \<in> set (materialsOf m)"
  shows "MaterialDisposed mat \<in> set (snd (dispose mdl))"
proof -
  from assms(2) obtain x where x: "x \<in> set (traverse (priv_modelGroup mdl))" "kind x = IsMesh m"
    using meshesOf_traverse by blast
  have "MaterialDisposed mat \<in> set (disposeObject x)"
    using x(2) assms(3) by (rule disposeObject_mesh_material)
  with x(1) show ?thesis using assms(1) by (auto simp: dispose_def)
qed

section \<open>The claims\<close>

subsection \<open>C1\<close>

text \<open>
  Claim C1. When \<^verbatim>\<open>OpenModel\<close> has succeeded and a later step of the load throws,
  \<^verbatim>\<open>CloseModel\<close> is to be called for the handle opened in that attempt before the error
  reaches the caller. The code calls \<^verbatim>\<open>CloseModel\<close> inside the \<^verbatim>\<open>try\<close> block, after the
  metadata was built; the \<^verbatim>\<open>catch\<close> block does not call it and there is no \<^verbatim>\<open>finally\<close>. On
  the input below the engine opens model 0 and \<^verbatim>\<open>LoadAllGeometry\<close> throws: the load ends in
  the typed load error, and no call of \<^verbatim>\<open>CloseModel\<close> is among its events.
\<close>

theorem load_failure_after_open_skips_close:
  "loadIfcFile exampleEnv exampleFile None abortingLoader =
     (Inl (IfcLoadError ''Failed to load IFC file: a.ifc'' (Some (PlainError ''RuntimeError: abort''))
             (Some [(''fileName'', CtxString ''a.ifc''), (''fileSize'', CtxNumber 3)])),
      abortingLoader,
      [Log LogInfo ''Loading IFC file'', ModelOpened 0, Log LogError ''Failed to load IFC file''])
   \<and> CloseModelCalled 0 \<notin> set (snd (snd (loadIfcFile exampleEnv exampleFile None abortingLoader)))"
proof -
  have gg: "generateGeometry abortingLoader 0 = (Inl (PlainError ''RuntimeError: abort''), [])"
    by (simp add: generateGeometry_def abortingLoader_def abortingApi_def io_defs)
  have om: "openModel abortingLoader [73, 70, 67] = (Inr 0, [ModelOpened 0])"
    by (simp add: openModel_def abortingLoader_def abortingApi_def exampleApi_def io_defs)
  have "loadIfcFile_try exampleEnv exampleFile None abortingLoader =
      (Inl (PlainError ''RuntimeError: abort''), [ModelOpened 0])"
    by (simp add: loadIfcFile_try_def emitProgress_def exampleFile_def om gg io_defs)
  then show ?thesis
    by (simp add: loadIfcFile_def ensureInitialized_def abortingLoader_def exampleFile_def)
qed

theorem load_failure_after_open_skips_close_witness:
  "ensureInitialized abortingLoader = None
   \<and> OpenModel abortingApi [73, 70, 67] = Inr 0
   \<and> LoadAllGeometry abortingApi 0 = Inl (PlainError ''RuntimeError: abort'')
   \<and> ModelOpened 0 \<in> set (snd (snd (loadIfcFile exampleEnv exampleFile None abortingLoader)))
   \<and> CloseModelCalled 0 \<notin> set (snd (snd (loadIfcFile exampleEnv exampleFile None abortingLoader)))"
proof -
  have a: "ensureInitialized abortingLoader = None"
    by (simp add: ensureInitialized_def abortingLoader_def)
  have b: "OpenModel abortingApi [73, 70, 67] = Inr 0"
    by (simp add: abortingApi_def exampleApi_def)
  have c: "LoadAllGeometry abortingApi 0 = Inl (PlainError ''RuntimeError: abort'')"
    by (simp add: abortingApi_def)
  from load_failure_after_open_skips_close
  have d: "ModelOpened 0 \<in> set (snd (snd (loadIfcFile exampleEnv exampleFile None abortingLoader)))"
    by simp
  from load_failure_after_open_skips_close a b c d show ?thesis by blast
qed

subsection \<open>C2\<close>

text \<open>
  Claim C2. The geometry object obtained from \<^verbatim>\<open>GetGeometry\<close> is to be released with
  \<^verbatim>\<open>delete()\<close> on every exit path of the placement's processing, also when an exception is
  thrown after it was acquired. The code releases it before the \<^verbatim>\<open>continue\<close> of an empty
  part and after the mesh was pushed; the \<^verbatim>\<open>catch\<close> block does not. On the input below
  \<^verbatim>\<open>GetGeometry\<close> succeeds for geometry 13 and \<^verbatim>\<open>GetVertexArray\<close> throws: the turn logs its
  warning, pushes no mesh, and no \<^verbatim>\<open>delete()\<close> of geometry 13 is among its events.
\<close>

theorem placement_failure_after_acquire_skips_delete:
  "processPlacement exampleApi 0 0 \<lparr>expressID = 7, geometries = [Some (examplePlaced 13 1)]\<rparr> 0
       (Some (examplePlaced 13 1)) =
     ([], [GeometryAcquired 13, Log LogWarn ''Error processing geometry 0 of mesh 0''])
   \<and> GeometryDeleted 13 \<notin> set (snd (processPlacement exampleApi 0 0
         \<lparr>expressID = 7, geometries = [Some (examplePlaced 13 1)]\<rparr> 0 (Some (examplePlaced 13 1))))"
proof -
  have "convertPlacement exampleApi 0 \<lparr>expressID = 7, geometries = [Some (examplePlaced 13 1)]\<rparr>
          (examplePlaced 13 1) =
        (Inl (PlainError ''Array buffer allocation failed''), [GeometryAcquired 13])"
    by (rule ex_convert_13)
  then show ?thesis by (simp add: processPlacement_def numberToString_digit)
qed

theorem placement_failure_after_acquire_skips_delete_witness:
  "GetVertexArray exampleApi 13 9 = Inl (PlainError ''Array buffer allocation failed'')
   \<and> GeometryAcquired 13 \<in> set (snd (processPlacement exampleApi 0 0
         \<lparr>expressID = 7, geometries = [Some (examplePlaced 13 1)]\<rparr> 0 (Some (examplePlaced 13 1))))
   \<and> GeometryDeleted 13 \<notin> set (snd (processPlacement exampleApi 0 0
         \<lparr>expressID = 7, geometries = [Some (examplePlaced 13 1)]\<rparr> 0 (Some (examplePlaced 13 1))))"
proof -
  have a: "GetVertexArray exampleApi 13 9 = Inl (PlainError ''Array buffer allocation failed'')"
    by (simp add: exampleApi_def)
  from placement_failure_after_acquire_skips_delete
  have b: "GeometryAcquired 13 \<in> set (snd (processPlacement exampleApi 0 0
         \<lparr>expressID = 7, geometries = [Some (examplePlaced 13 1)]\<rparr> 0 (Some (examplePlaced 13 1))))"
    by simp
  from placement_failure_after_acquire_skips_delete a b show ?thesis by blast
qed

subsection \<open>C3\<close>

text \<open>
  Claim C3, as stated, fails. The flat mesh below has two placements. The first converts.
  The second is built and pushed, and then its \<^verbatim>\<open>geometry.delete()\<close> throws, inside the
  \<^verbatim>\<open>try\<close> block: exactly one placement throws and the other is valid. The exception is
  caught and logged with the indices 1 and 0 and the load completes, but the mesh pushed
  before the exception stays: the model holds 2 meshes, not 2 - 1.
\<close>

theorem single_failure_after_push_keeps_mesh:
  "length (placementsOf [stickyFlatMesh]) = 2
   \<and> length (filter (throwsAt stickyApi 0) (placementsOf [stickyFlatMesh])) = 1
   \<and> length (filter (convertsAt stickyApi 0) (placementsOf [stickyFlatMesh])) = 1
   \<and> fst (generateGeometry stickyLoader 0) =
       Inr [buildMesh stickyFlatMesh (examplePlaced 11 1) triangleVerts [0, 1, 2],
            buildMesh stickyFlatMesh (examplePlaced 15 1) triangleVerts [0, 1, 2]]
   \<and> Log LogWarn ''Error processing geometry 1 of mesh 0'' \<in> set (snd (generateGeometry stickyLoader 0))
   \<and> map_sum id (\<lambda>model. meshCount (metadata model))
         (fst (loadIfcFile exampleEnv exampleFile None stickyLoader)) = Inr 2
   \<and> length (placementsOf [stickyFlatMesh]) - 1 \<noteq> 2"
proof -
  have n: "length (placementsOf [stickyFlatMesh]) = 2"
    by (simp add: sticky_placements)
  have th: "length (filter (throwsAt stickyApi 0) (placementsOf [stickyFlatMesh])) = 1"
    by (simp add: sticky_placements sticky_convert ex_convert_11 ex_convert_15)
  have cv: "length (filter (convertsAt stickyApi 0) (placementsOf [stickyFlatMesh])) = 1"
    by (simp add: sticky_placements sticky_convert ex_convert_11 ex_convert_15)
  have ld: "map_sum id (\<lambda>model. meshCount (metadata model))
         (fst (loadIfcFile exampleEnv exampleFile None stickyLoader)) = Inr 2"
    by (simp add: loadIfcFile_def ensureInitialized_def sticky_simps
        loadIfcFile_try_def emitProgress_def exampleFile_def openModel_def closeModel_def
        sticky_generate io_defs countVertices_def buildMesh_def Let_def
        metadata_def newIfcModel_def)
  from n th cv ld show ?thesis by (simp add: sticky_generate)
qed

text \<open>
  Claim C3, amended. Let a model have N placements, all present, of which exactly one
  throws inside the \<^verbatim>\<open>try\<close> block, before its mesh is pushed, and every other one is
  converted without an exception. Then \<^verbatim>\<open>generateGeometry\<close> returns N - 1 meshes and has
  logged the warning that names the two loop indices of the failing placement. If moreover
  the file is read, the model is opened and closed without an exception and the progress
  callback does not throw, \<^verbatim>\<open>loadIfcFile\<close> returns a model whose group holds N - 1 meshes
  and whose metadata counts N - 1.
\<close>

theorem single_failure_isolated:
  assumes "ifcApi s = Some api" "isInitialized s"
    "arrayBuffer file = Inr data" "OpenModel api data = Inr modelID"
    "LoadAllGeometry api modelID = Inr flatMeshes" "CloseModel api modelID = None"
    "\<forall>cb p. onProgress = Some cb \<longrightarrow> cb p = None"
    "length (filter (throwsAt api modelID) (placementsOf flatMeshes)) = 1"
    "\<forall>tn \<in> set (placementsOf flatMeshes). throwsAt api modelID tn \<longrightarrow> pushedAt api modelID tn = []"
    "\<forall>tn \<in> set (placementsOf flatMeshes). throwsAt api modelID tn \<or> convertsAt api modelID tn"
  shows "(\<exists>meshes t. generateGeometry s modelID = (Inr meshes, t)
            \<and> length meshes = length (placementsOf flatMeshes) - 1
            \<and> (\<forall>tn \<in> set (placementsOf flatMeshes).
                  throwsAt api modelID tn \<longrightarrow> warningOf tn \<in> set t))
       \<and> (\<exists>model t. loadIfcFile env file onProgress s = (Inr model, s, t)
            \<and> meshCount (metadata model) = length (placementsOf flatMeshes) - 1
            \<and> length (children (priv_modelGroup model)) = length (placementsOf flatMeshes) - 1
            \<and> (\<forall>tn \<in> set (placementsOf flatMeshes).
                  throwsAt api modelID tn \<longrightarrow> warningOf tn \<in> set t))"
proof -
  define meshes where "meshes = fst (flatMeshesLoop api modelID 0 flatMeshes)"
  define tg where "tg = snd (flatMeshesLoop api modelID 0 flatMeshes) @
      [Log LogDebug (''Generated '' @ numberToString (length meshes) @ '' meshes from IFC model'')]"
  define tp where "tp = (\<lambda>p. case onProgress of None \<Rightarrow> [] | Some cb \<Rightarrow> [Progress p])"
  have gg: "generateGeometry s modelID = (Inr meshes, tg)"
    using generateGeometry_loop[OF assms(1) assms(5)] by (simp add: meshes_def tg_def)
  have rest: "\<forall>tn \<in> set (placementsOf flatMeshes).
      \<not> throwsAt api modelID tn \<longrightarrow> convertsAt api modelID tn"
    using assms(10) by blast
  have len: "length meshes = length (placementsOf flatMeshes) - 1"
    using pushed_count[OF assms(9) rest] assms(8)
    by (simp add: meshes_def flatMeshesLoop_pushed placementsOf_def)
  have warn: "warningOf tn \<in> set tg"
    if "tn \<in> set (placementsOf flatMeshes)" "throwsAt api modelID tn" for tn
    using that flatMeshesLoop_warns[of tn 0 flatMeshes api modelID]
    by (simp add: tg_def placementsOf_def)
  have "\<forall>mesh \<in> set meshes. geometry mesh \<noteq> None"
    using flatMeshesLoop_geometry by (auto simp: meshes_def)
  then obtain v where cv: "countVertices meshes = Inr v"
    using countVerticesFrom_total[of meshes 0] by (auto simp: countVertices_def)
  have ep: "emitProgress onProgress p = (Inr (), tp p)" for p
    using assms(7) by (cases onProgress) (auto simp: emitProgress_def tp_def succeed_def)
  have first: "\<exists>meshes t. generateGeometry s modelID = (Inr meshes, t)
            \<and> length meshes = length (placementsOf flatMeshes) - 1
            \<and> (\<forall>tn \<in> set (placementsOf flatMeshes).
                  throwsAt api modelID tn \<longrightarrow> warningOf tn \<in> set t)"
    using gg len warn by blast
  have second: "\<exists>model t. loadIfcFile env file onProgress s = (Inr model, s, t)
            \<and> meshCount (metadata model) = length (placementsOf flatMeshes) - 1
            \<and> length (children (priv_modelGroup model)) = length (placementsOf flatMeshes) - 1
            \<and> (\<forall>tn \<in> set (placementsOf flatMeshes).
                  throwsAt api modelID tn \<longrightarrow> warningOf tn \<in> set t)"
    using len warn
    by (simp add: loadIfcFile_def ensureInitialized_def loadIfcFile_try_def io_defs
        openModel_def closeModel_def assms(1-6) gg cv ep metadata_def newIfcModel_def)
  from first second show ?thesis by blast
qed

theorem single_failure_isolated_witness:
  "length (placementsOf exampleFlatMeshes) = 3
   \<and> length (filter (throwsAt exampleApi 0) (placementsOf exampleFlatMeshes)) = 1
   \<and> (\<exists>meshes t. generateGeometry readyLoader 0 = (Inr meshes, t) \<and> length meshes = 2
         \<and> Log LogWarn ''Error processing geometry 1 of mesh 0'' \<in> set t)
   \<and> (\<exists>model t. loadIfcFile exampleEnv exampleFile (Some quietCallback) readyLoader =
         (Inr model, readyLoader, t)
         \<and> meshCount (metadata model) = 2
         \<and> length (children (priv_modelGroup model)) = 2
         \<and> Log LogWarn ''Error processing geometry 1 of mesh 0'' \<in> set t)"
proof -
  have h3: "arrayBuffer exampleFile = Inr [73, 70, 67]"
    by (simp add: exampleFile_def)
  have h4: "OpenModel exampleApi [73, 70, 67] = Inr 0"
    by (simp add: exampleApi_def)
  have h6: "CloseModel exampleApi 0 = None"
    by (simp add: exampleApi_def)
  have h7: "\<forall>cb p. Some quietCallback = Some cb \<longrightarrow> cb p = None"
    by (simp add: quietCallback_def)
  have h8: "length (filter (throwsAt exampleApi 0) (placementsOf exampleFlatMeshes)) = 1"
    by (simp add: ex_placements ex_convert_11 ex_convert_13 ex_convert_14)
  have h9: "\<forall>tn \<in> set (placementsOf exampleFlatMeshes).
      throwsAt exampleApi 0 tn \<longrightarrow> pushedAt exampleApi 0 tn = []"
    by (simp add: ex_placements ex_convert_11 ex_convert_13 ex_convert_14)
  have h10: "\<forall>tn \<in> set (placementsOf exampleFlatMeshes).
      throwsAt exampleApi 0 tn \<or> convertsAt exampleApi 0 tn"
    by (simp add: ex_placements ex_convert_11 ex_convert_13 ex_convert_14)
  have n: "length (placementsOf exampleFlatMeshes) = 3"
    by (simp add: ex_placements)
  have w: "warningOf (0, \<lparr>expressID = 7,
                geometries = [Some (examplePlaced 11 1), Some (examplePlaced 13 1)]\<rparr>,
             1, Some (examplePlaced 13 1)) = Log LogWarn ''Error processing geometry 1 of mesh 0''"
    by (simp add: warningOf_def numberToString_digit)
  have th: "throwsAt exampleApi 0 (0, \<lparr>expressID = 7,
                geometries = [Some (examplePlaced 11 1), Some (examplePlaced 13 1)]\<rparr>,
             1, Some (examplePlaced 13 1))"
    by (simp add: ex_convert_13)
  have mem: "(0, \<lparr>expressID = 7,
                geometries = [Some (examplePlaced 11 1), Some (examplePlaced 13 1)]\<rparr>,
             1, Some (examplePlaced 13 1)) \<in> set (placementsOf exampleFlatMeshes)"
    by (simp add: ex_placements)
  from single_failure_isolated [OF ready_simps(1) ready_simps(2) h3 h4 ex_loadAll h6 h7 h8 h9 h10,
      of exampleEnv] n w th mem h8
  show ?thesis by (metis diff_Suc_1 numeral_3_eq_3 numeral_2_eq_2)
qed

subsection \<open>C4\<close>

text \<open>
  Claim C4. A failed initialization is to leave the loader uninitialized: \<^verbatim>\<open>ifcApi\<close> null
  and \<^verbatim>\<open>isInitialized\<close> false. The \<^verbatim>\<open>catch\<close> block of \<^verbatim>\<open>initialize\<close> resets \<^verbatim>\<open>ifcApi\<close> and
  the \<^verbatim>\<open>finally\<close> block resets \<^verbatim>\<open>isInitializing\<close>; neither resets \<^verbatim>\<open>isInitialized\<close>, and
  \<^verbatim>\<open>dispose()\<close> clears \<^verbatim>\<open>isInitializing\<close> while a call is waiting for its promise. In the
  run below a first call is suspended, \<^verbatim>\<open>dispose()\<close> is called, a second call is started
  and suspended, the first promise resolves and the second rejects. The second call throws
  its \<^verbatim>\<open>WasmLoadError\<close> and leaves \<^verbatim>\<open>isInitialized\<close> true with \<^verbatim>\<open>ifcApi\<close> null: a further
  \<^verbatim>\<open>initialize\<close> returns at once as already initialized, and every load is refused as
  not initialized.
\<close>

theorem failed_initialize_leaves_initialized:
  "initialize_begin exampleConfig (Inr exampleApi) initialLoader =
     (Awaiting None, inflightLoader,
      [Log LogInfo ''Initializing IFC Loader'', ApiCreated, WasmPathSet ''/wasm/'', InitCalled])
   \<and> disposeLoader inflightLoader = (initialLoader, [Log LogInfo ''IFC Loader disposed''])
   \<and> initialize_begin exampleConfig (Inr failingInitApi) initialLoader =
     (Awaiting (Some (PlainError ''wasm not found'')), secondInflightLoader,
      [Log LogInfo ''Initializing IFC Loader'', ApiCreated, WasmPathSet ''/wasm/'', InitCalled])
   \<and> initialize_resume exampleConfig None secondInflightLoader =
     (Inr (), resolvedLoader, [Log LogInfo ''IFC Loader initialized successfully''])
   \<and> initialize_resume exampleConfig (Some (PlainError ''wasm not found'')) resolvedLoader =
     (Inl (WasmLoadError ''Failed to initialize web-ifc WASM module''
             (Some (PlainError ''wasm not found'')) (Some [(''wasmPath'', CtxString ''/wasm/'')])),
      stuckLoader, [Log LogError ''Failed to initialize IFC Loader''])
   \<and> isInitialized stuckLoader \<and> ifcApi stuckLoader = None
   \<and> initialize exampleConfig (Inr exampleApi) stuckLoader =
     (Inr (), stuckLoader, [Log LogDebug ''IFC Loader already initialized''])
   \<and> loadIfcFile exampleEnv exampleFile None stuckLoader =
     (Inl (IfcLoadError ''IFC Loader not initialized'' None
             (Some [(''isInitialized'', CtxBool True), (''hasApi'', CtxBool False)])),
      stuckLoader, [])"
proof -
  have d: "disposeLoader inflightLoader = (initialLoader, [Log LogInfo ''IFC Loader disposed''])"
    by (simp add: disposeLoader_def inflightLoader_def initialLoader_def)
  have b2: "initialize_begin exampleConfig (Inr failingInitApi) initialLoader =
     (Awaiting (Some (PlainError ''wasm not found'')), secondInflightLoader,
      [Log LogInfo ''Initializing IFC Loader'', ApiCreated, WasmPathSet ''/wasm/'', InitCalled])"
    by (simp add: initialize_begin_def initialLoader_def failingInitApi_def exampleApi_def
        exampleConfig_def secondInflightLoader_def Let_def)
  have r1: "initialize_resume exampleConfig None secondInflightLoader =
     (Inr (), resolvedLoader, [Log LogInfo ''IFC Loader initialized successfully''])"
    by (simp add: initialize_resume_def secondInflightLoader_def resolvedLoader_def)
  have r2: "initialize_resume exampleConfig (Some (PlainError ''wasm not found'')) resolvedLoader =
     (Inl (WasmLoadError ''Failed to initialize web-ifc WASM module''
             (Some (PlainError ''wasm not found'')) (Some [(''wasmPath'', CtxString ''/wasm/'')])),
      stuckLoader, [Log LogError ''Failed to initialize IFC Loader''])"
    by (simp add: initialize_resume_def initialize_catch_def resolvedLoader_def stuckLoader_def
        exampleConfig_def)
  have st: "isInitialized stuckLoader \<and> ifcApi stuckLoader = None \<and> \<not> isInitializing stuckLoader"
    by (simp add: stuckLoader_def)
  have i3: "initialize exampleConfig (Inr exampleApi) stuckLoader =
     (Inr (), stuckLoader, [Log LogDebug ''IFC Loader already initialized''])"
    using st by (simp add: initialize_def initialize_begin_def)
  have ld: "loadIfcFile exampleEnv exampleFile None stuckLoader =
     (Inl (IfcLoadError ''IFC Loader not initialized'' None
             (Some [(''isInitialized'', CtxBool True), (''hasApi'', CtxBool False)])),
      stuckLoader, [])"
    using st by (simp add: loadIfcFile_def ensureInitialized_def)
  from ex_begin_inflight d b2 r1 r2 st i3 ld show ?thesis by blast
qed

theorem failed_initialize_leaves_initialized_witness:
  "reachable stuckLoader \<and> isInitialized stuckLoader \<and> ifcApi stuckLoader = None
   \<and> isl (fst (initialize_resume exampleConfig (Some (PlainError ''wasm not found'')) resolvedLoader))
   \<and> ensureInitialized stuckLoader \<noteq> None"
proof -
  note run = failed_initialize_leaves_initialized
  have a: "reachable inflightLoader"
    using reach_init run [THEN conjunct1] by (rule reach_begin)
  have b: "reachable initialLoader"
    by (rule reach_init)
  have c: "reachable secondInflightLoader"
    using b run [THEN conjunct2, THEN conjunct2, THEN conjunct1] by (rule reach_begin)
  have d: "reachable resolvedLoader"
    using c run [THEN conjunct2, THEN conjunct2, THEN conjunct2, THEN conjunct1]
    by (rule reach_resume)
  have e: "reachable stuckLoader"
    using d run [THEN conjunct2, THEN conjunct2, THEN conjunct2, THEN conjunct2, THEN conjunct1]
    by (rule reach_resume)
  have f: "isl (fst (initialize_resume exampleConfig (Some (PlainError ''wasm not found''))
      resolvedLoader))"
    using run by simp
  have g: "ensureInitialized stuckLoader \<noteq> None"
    by (simp add: ensureInitialized_def stuckLoader_def)
  from e f g run show ?thesis by blast
qed

subsection \<open>C5\<close>

text \<open>
  Claim C5. Disposing a model twice changes nothing the second time. After
  \<^verbatim>\<open>dispose()\<close> the getters \<^verbatim>\<open>modelGroup\<close> and \<^verbatim>\<open>rawData\<close> throw, while \<^verbatim>\<open>metadata\<close> still
  returns the record it returned before. The first \<^verbatim>\<open>dispose()\<close> of a model calls
  \<^verbatim>\<open>dispose()\<close> on the geometry and on each material of every mesh below the group,
  empties the group and sets the flag.
\<close>

theorem model_dispose:
  "dispose (fst (dispose m)) = (fst (dispose m), [])
   \<and> modelGroup (fst (dispose m)) = Inl (PlainError ''Cannot access disposed IFC model'')
   \<and> rawData (fst (dispose m)) = Inl (PlainError ''Cannot access disposed IFC model'')
   \<and> metadata (fst (dispose m)) = metadata m
   \<and> isDisposed (fst (dispose m))
   \<and> (\<not> isDisposed m \<longrightarrow>
        children (priv_modelGroup (fst (dispose m))) = []
        \<and> (\<forall>mesh \<in> set (meshesOf (priv_modelGroup m)).
             (\<forall>g. geometry mesh = Some g \<longrightarrow> GeometryDisposed g \<in> set (snd (dispose m)))
             \<and> (\<forall>mat \<in> set (materialsOf mesh). MaterialDisposed mat \<in> set (snd (dispose m)))))"
proof -
  have d: "priv_disposed (fst (dispose m))"
    by (simp add: dispose_def)
  have "dispose (fst (dispose m)) = (fst (dispose m), [])"
    using d by (simp add: dispose_def)
  moreover have "modelGroup (fst (dispose m)) = Inl (PlainError ''Cannot access disposed IFC model'')"
    using d by (simp add: modelGroup_def ensureNotDisposed_def)
  moreover have "rawData (fst (dispose m)) = Inl (PlainError ''Cannot access disposed IFC model'')"
    using d by (simp add: rawData_def ensureNotDisposed_def)
  moreover have "metadata (fst (dispose m)) = metadata m"
    by (simp add: metadata_def dispose_def)
  moreover have "isDisposed (fst (dispose m))"
    using d by (simp add: isDisposed_def)
  moreover have "children (priv_modelGroup (fst (dispose m))) = []" if "\<not> isDisposed m"
    using that by (simp add: dispose_def isDisposed_def clear_def)
  moreover have "GeometryDisposed g \<in> set (snd (dispose m))"
    if "\<not> isDisposed m" "mesh \<in> set (meshesOf (priv_modelGroup m))" "geometry mesh = Some g"
    for mesh g
    using that dispose_releases_geometry by (simp add: isDisposed_def)
  moreover have "MaterialDisposed mat \<in> set (snd (dispose m))"
    if "\<not> isDisposed m" "mesh \<in> set (meshesOf (priv_modelGroup m))" "mat \<in> set (materialsOf mesh)"
    for mesh mat
    using that dispose_releases_material by (simp add: isDisposed_def)
  ultimately show ?thesis by blast
qed

theorem model_dispose_witness:
  "\<not> isDisposed exampleModel
   \<and> exampleMesh \<in> set (meshesOf (priv_modelGroup exampleModel))
   \<and> snd (dispose exampleModel) = [GeometryDisposed exampleGeometry, MaterialDisposed exampleMaterial]
   \<and> children (priv_modelGroup (fst (dispose exampleModel))) = []
   \<and> dispose (fst (dispose exampleModel)) = (fst (dispose exampleModel), [])
   \<and> modelGroup exampleModel = Inr (priv_modelGroup exampleModel)
   \<and> modelGroup (fst (dispose exampleModel)) = Inl (PlainError ''Cannot access disposed IFC model'')
   \<and> rawData (fst (dispose exampleModel)) = Inl (PlainError ''Cannot access disposed IFC model'')
   \<and> metadata (fst (dispose exampleModel)) = exampleMetadata"
  using model_dispose [of exampleModel]
  by (simp add: exampleModel_def newIfcModel_def isDisposed_def meshesOf_def dispose_def
      disposeObject_def exampleMesh_def modelGroup_def ensureNotDisposed_def metadata_def)

subsection \<open>C6\<close>

text \<open>
  Claim C6. A placement whose geometry was acquired and whose vertex array or index
  array is absent or of length zero yields no mesh and lets no exception out: the turn
  calls \<^verbatim>\<open>delete()\<close> on the geometry and the inner loop goes on with the next placement.
  The events of the turn are the acquisition and the release, and nothing else when the
  release returns; when \<^verbatim>\<open>delete()\<close> itself throws, the \<^verbatim>\<open>catch\<close> block logs its warning.
\<close>

theorem empty_part_skipped:
  assumes "GetGeometry api modelID (geometryExpressID pg) = Inr geom"
    "GetVertexData geom = Inr vertexData" "GetVertexDataSize geom = Inr vertexDataSize"
    "GetIndexData geom = Inr indexData" "GetIndexDataSize geom = Inr indexDataSize"
    "GetVertexArray api vertexData vertexDataSize = Inr verts"
    "GetIndexArray api indexData indexDataSize = Inr indices"
    "verts = None \<or> indices = None \<or> verts = Some [] \<or> indices = Some []"
  shows "processPlacement api modelID i flatMesh j (Some pg) =
      ([], GeometryAcquired (geometryExpressID pg) # GeometryDeleted (geometryExpressID pg) #
           (case delete geom of
              None \<Rightarrow> []
            | Some e \<Rightarrow> [Log LogWarn (''Error processing geometry '' @ numberToString j @
                                        '' of mesh '' @ numberToString i)]))
    \<and> geometriesLoop api modelID i flatMesh j (Some pg # rest) =
      (fst (geometriesLoop api modelID i flatMesh (Suc j) rest),
       GeometryAcquired (geometryExpressID pg) # GeometryDeleted (geometryExpressID pg) #
       (case delete geom of
          None \<Rightarrow> []
        | Some e \<Rightarrow> [Log LogWarn (''Error processing geometry '' @ numberToString j @
                                    '' of mesh '' @ numberToString i)]) @
       snd (geometriesLoop api modelID i flatMesh (Suc j) rest))"
proof -
  have c: "convertPlacement api modelID flatMesh pg =
      (case delete geom of None \<Rightarrow> Inr () | Some e \<Rightarrow> Inl e,
       [GeometryAcquired (geometryExpressID pg), GeometryDeleted (geometryExpressID pg)])"
    using assms
    by (auto simp: convertPlacement_def releaseGeometry_def io_defs split: option.splits)
  then have p: "processPlacement api modelID i flatMesh j (Some pg) =
      ([], GeometryAcquired (geometryExpressID pg) # GeometryDeleted (geometryExpressID pg) #
           (case delete geom of
              None \<Rightarrow> []
            | Some e \<Rightarrow> [Log LogWarn (''Error processing geometry '' @ numberToString j @
                                        '' of mesh '' @ numberToString i)]))"
    by (simp add: processPlacement_def split: option.splits)
  then show ?thesis by (simp split: prod.splits)
qed

theorem empty_part_skipped_witness:
  "GetIndexArray exampleApi 12 3 = Inr (Some [])
   \<and> processPlacement exampleApi 0 0 \<lparr>expressID = 7, geometries = []\<rparr> 0 (Some (examplePlaced 12 1)) =
       ([], [GeometryAcquired 12, GeometryDeleted 12])
   \<and> geometriesLoop exampleApi 0 0 \<lparr>expressID = 7, geometries = []\<rparr> 0
       [Some (examplePlaced 12 1), Some (examplePlaced 11 1)] =
       ([buildMesh \<lparr>expressID = 7, geometries = []\<rparr> (examplePlaced 11 1) triangleVerts [0, 1, 2]],
        [GeometryAcquired 12, GeometryDeleted 12, GeometryAcquired 11,
         MeshPushed (buildMesh \<lparr>expressID = 7, geometries = []\<rparr> (examplePlaced 11 1)
           triangleVerts [0, 1, 2]),
         GeometryDeleted 11])"
proof -
  have g: "GetGeometry exampleApi 0 (geometryExpressID (examplePlaced 12 1)) =
      Inr \<lparr>GetVertexData = Inr 12, GetVertexDataSize = Inr 9,
           GetIndexData = Inr 12, GetIndexDataSize = Inr 3, delete = None\<rparr>"
    by (simp add: exampleApi_def examplePlaced_def)
  have v: "GetVertexArray exampleApi 12 9 = Inr (Some triangleVerts)"
    by (simp add: exampleApi_def)
  have x: "GetIndexArray exampleApi 12 3 = Inr (Some [])"
    by (simp add: exampleApi_def)
  have e: "Some triangleVerts = None \<or> Some ([] :: 32 word list) = None
      \<or> Some triangleVerts = Some [] \<or> Some ([] :: 32 word list) = Some []"
    by simp
  have id: "geometryExpressID (examplePlaced 12 1) = 12"
    by (simp add: examplePlaced_def)
  have rest: "geometriesLoop exampleApi 0 0 \<lparr>expressID = 7, geometries = []\<rparr> (Suc 0)
       [Some (examplePlaced 11 1)] =
       ([buildMesh \<lparr>expressID = 7, geometries = []\<rparr> (examplePlaced 11 1) triangleVerts [0, 1, 2]],
        [GeometryAcquired 11,
         MeshPushed (buildMesh \<lparr>expressID = 7, geometries = []\<rparr> (examplePlaced 11 1)
           triangleVerts [0, 1, 2]),
         GeometryDeleted 11])"
    by (simp add: processPlacement_def ex_convert_11)
  from empty_part_skipped [where api = exampleApi and modelID = 0 and pg = "examplePlaced 12 1"
      and i = 0 and j = 0 and flatMesh = "\<lparr>expressID = 7, geometries = []\<rparr>"
      and rest = "[Some (examplePlaced 11 1)]", OF g _ _ _ _ v x e] x id rest
  show ?thesis by simp
qed

subsection \<open>C7\<close>

text \<open>
  Claim C7, as stated, fails for a channel that is NaN. The placement below has NaN as its
  red channel and as its alpha. It is converted, and the material of its mesh has NaN as
  red and as opacity: \<^verbatim>\<open>Math.max(0, Math.min(1, NaN))\<close> is NaN, which is not a number between
  0 and 1.
\<close>

theorem material_nan_not_clamped:
  "convertPlacement exampleApi 0 \<lparr>expressID = 7, geometries = [Some nanPlaced]\<rparr> nanPlaced =
     (Inr (),
      [GeometryAcquired 11,
       MeshPushed (buildMesh \<lparr>expressID = 7, geometries = [Some nanPlaced]\<rparr> nanPlaced
         triangleVerts [0, 1, 2]),
       GeometryDeleted 11])
   \<and> material (buildMesh \<lparr>expressID = 7, geometries = [Some nanPlaced]\<rparr> nanPlaced
                 triangleVerts [0, 1, 2]) =
       SingleMaterial \<lparr>color = (NaN, Num 0, Num 1), side = DoubleSide, transparent = False,
                       opacity = NaN, depthWrite = False\<rparr>
   \<and> \<not> inUnitInterval NaN"
proof -
  have c: "convertPlacement exampleApi 0 \<lparr>expressID = 7, geometries = [Some nanPlaced]\<rparr> nanPlaced =
     (Inr (),
      [GeometryAcquired 11,
       MeshPushed (buildMesh \<lparr>expressID = 7, geometries = [Some nanPlaced]\<rparr> nanPlaced
         triangleVerts [0, 1, 2]),
       GeometryDeleted 11])"
    by (rule ex_convert_nan)
  have m: "material (buildMesh \<lparr>expressID = 7, geometries = [Some nanPlaced]\<rparr> nanPlaced
                 triangleVerts [0, 1, 2]) =
       SingleMaterial \<lparr>color = (NaN, Num 0, Num 1), side = DoubleSide, transparent = False,
                       opacity = NaN, depthWrite = False\<rparr>"
    by (simp add: buildMesh_def nanPlaced_def Let_def Math_max_def Math_min_def jsGreaterEq_def)
  have n: "\<not> inUnitInterval NaN"
    by (simp add: inUnitInterval_def jsGreaterEq_def)
  from c m n show ?thesis by blast
qed

text \<open>
  Claim C7, amended. The material of every converted placement is derived from the
  placement's RGBA colour: each channel that is not NaN is clamped to the interval from 0
  to 1; with a the clamped alpha, the opacity is a, the material is transparent exactly
  when a < 0.99, and it writes depth exactly when a >= 0.99. So alpha 1 gives an opaque
  material that writes depth, alpha 0.5 a transparent one that does not, and alpha 0.995
  an opaque one.
\<close>

theorem material_from_color:
  assumes "mesh \<in> set (pushedOf (snd (convertPlacement api modelID flatMesh pg)))"
  shows "\<exists>mat. material mesh = SingleMaterial mat
    \<and> color mat = (Math_max (Num 0) (Math_min (Num 1) (chan_x (placedColor pg))),
                   Math_max (Num 0) (Math_min (Num 1) (chan_y (placedColor pg))),
                   Math_max (Num 0) (Math_min (Num 1) (chan_z (placedColor pg))))
    \<and> opacity mat = Math_max (Num 0) (Math_min (Num 1) (chan_w (placedColor pg)))
    \<and> transparent mat = jsLess (opacity mat) (Num 0.99)
    \<and> depthWrite mat = jsGreaterEq (opacity mat) (Num 0.99)
    \<and> (chan_x (placedColor pg) \<noteq> NaN \<longrightarrow> inUnitInterval (fst (color mat)))
    \<and> (chan_y (placedColor pg) \<noteq> NaN \<longrightarrow> inUnitInterval (fst (snd (color mat))))
    \<and> (chan_z (placedColor pg) \<noteq> NaN \<longrightarrow> inUnitInterval (snd (snd (color mat))))
    \<and> (chan_w (placedColor pg) \<noteq> NaN \<longrightarrow> inUnitInterval (opacity mat))
    \<and> (chan_w (placedColor pg) = Num v \<longrightarrow>
          opacity mat = Num (max 0 (min 1 v))
          \<and> transparent mat = (max 0 (min 1 v) < 0.99)
          \<and> depthWrite mat = (max 0 (min 1 v) \<ge> 0.99))
    \<and> (chan_w (placedColor pg) = Num 1 \<longrightarrow> \<not> transparent mat \<and> depthWrite mat)
    \<and> (chan_w (placedColor pg) = Num 0.5 \<longrightarrow> transparent mat \<and> \<not> depthWrite mat)
    \<and> (chan_w (placedColor pg) = Num 0.995 \<longrightarrow> \<not> transparent mat \<and> depthWrite mat)"
proof -
  from pushed_is_built[OF assms] obtain vs ixs where m: "mesh = buildMesh flatMesh pg vs ixs"
    by blast
  define mat where "mat = \<lparr>color =
        (Math_max (Num 0) (Math_min (Num 1) (chan_x (placedColor pg))),
         Math_max (Num 0) (Math_min (Num 1) (chan_y (placedColor pg))),
         Math_max (Num 0) (Math_min (Num 1) (chan_z (placedColor pg)))),
      side = DoubleSide,
      transparent = jsLess (Math_max (Num 0) (Math_min (Num 1) (chan_w (placedColor pg)))) (Num 0.99),
      opacity = Math_max (Num 0) (Math_min (Num 1) (chan_w (placedColor pg))),
      depthWrite = jsGreaterEq (Math_max (Num 0) (Math_min (Num 1) (chan_w (placedColor pg))))
        (Num 0.99)\<rparr>"
  have a: "material mesh = SingleMaterial mat"
    by (simp add: m buildMesh_def Let_def mat_def)
  have b: "opacity mat = Num (max 0 (min 1 v))
          \<and> transparent mat = (max 0 (min 1 v) < 0.99)
          \<and> depthWrite mat = (max 0 (min 1 v) \<ge> 0.99)"
    if "chan_w (placedColor pg) = Num v"
    using that by (simp add: mat_def clamp_finite jsGreaterEq_def not_less)
  have c: "\<not> transparent mat \<and> depthWrite mat" if "chan_w (placedColor pg) = Num 1"
    using that by (simp add: mat_def clamp_finite jsGreaterEq_def)
  have d: "transparent mat \<and> \<not> depthWrite mat" if "chan_w (placedColor pg) = Num 0.5"
    using that by (simp add: mat_def clamp_finite jsGreaterEq_def)
  have e: "\<not> transparent mat \<and> depthWrite mat" if "chan_w (placedColor pg) = Num 0.995"
    using that by (simp add: mat_def clamp_finite jsGreaterEq_def)
  have f: "color mat = (Math_max (Num 0) (Math_min (Num 1) (chan_x (placedColor pg))),
                   Math_max (Num 0) (Math_min (Num 1) (chan_y (placedColor pg))),
                   Math_max (Num 0) (Math_min (Num 1) (chan_z (placedColor pg))))
    \<and> opacity mat = Math_max (Num 0) (Math_min (Num 1) (chan_w (placedColor pg)))
    \<and> transparent mat = jsLess (opacity mat) (Num 0.99)
    \<and> depthWrite mat = jsGreaterEq (opacity mat) (Num 0.99)"
    by (simp add: mat_def)
  have g: "(chan_x (placedColor pg) \<noteq> NaN \<longrightarrow> inUnitInterval (fst (color mat)))
    \<and> (chan_y (placedColor pg) \<noteq> NaN \<longrightarrow> inUnitInterval (fst (snd (color mat))))
    \<and> (chan_z (placedColor pg) \<noteq> NaN \<longrightarrow> inUnitInterval (snd (snd (color mat))))
    \<and> (chan_w (placedColor pg) \<noteq> NaN \<longrightarrow> inUnitInterval (opacity mat))"
    by (simp add: mat_def clamp_not_NaN)
  from a b c d e f g show ?thesis by blast
qed

theorem material_from_color_witness:
  "buildMesh \<lparr>expressID = 7, geometries = []\<rparr> (examplePlaced 11 (1 / 2)) triangleVerts [0, 1, 2]
     \<in> set (pushedOf (snd (convertPlacement exampleApi 0 \<lparr>expressID = 7, geometries = []\<rparr>
              (examplePlaced 11 (1 / 2)))))
   \<and> material (buildMesh \<lparr>expressID = 7, geometries = []\<rparr> (examplePlaced 11 (1 / 2))
                 triangleVerts [0, 1, 2]) =
       SingleMaterial \<lparr>color = (Num 1, Num 0, Num (1 / 2)), side = DoubleSide, transparent = True,
                       opacity = Num (1 / 2), depthWrite = False\<rparr>
   \<and> material (buildMesh \<lparr>expressID = 7, geometries = []\<rparr> (examplePlaced 11 1)
                 triangleVerts [0, 1, 2]) =
       SingleMaterial \<lparr>color = (Num 1, Num 0, Num (1 / 2)), side = DoubleSide, transparent = False,
                       opacity = Num 1, depthWrite = True\<rparr>
   \<and> material (buildMesh \<lparr>expressID = 7, geometries = []\<rparr> (examplePlaced 11 (995 / 1000))
                 triangleVerts [0, 1, 2]) =
       SingleMaterial \<lparr>color = (Num 1, Num 0, Num (1 / 2)), side = DoubleSide, transparent = False,
                       opacity = Num (995 / 1000), depthWrite = True\<rparr>"
proof -
  have p: "buildMesh \<lparr>expressID = 7, geometries = []\<rparr> (examplePlaced 11 al) triangleVerts [0, 1, 2]
     \<in> set (pushedOf (snd (convertPlacement exampleApi 0 \<lparr>expressID = 7, geometries = []\<rparr>
              (examplePlaced 11 al))))" for al
    by (simp add: ex_convert_11)
  have c: "placedColor (examplePlaced 11 al) =
      Color4 (Num (3 / 2)) (Num (- (1 / 5))) (Num (1 / 2)) (Num al)" for al
    by (simp add: examplePlaced_def)
  from material_from_color [OF p [of "1 / 2"], of "1 / 2"] c [of "1 / 2"]
  have half: "material (buildMesh \<lparr>expressID = 7, geometries = []\<rparr> (examplePlaced 11 (1 / 2))
                 triangleVerts [0, 1, 2]) =
       SingleMaterial \<lparr>color = (Num 1, Num 0, Num (1 / 2)), side = DoubleSide, transparent = True,
                       opacity = Num (1 / 2), depthWrite = False\<rparr>"
    by (simp add: buildMesh_def Let_def clamp_finite jsGreaterEq_def)
  from material_from_color [OF p [of 1], of 1] c [of 1]
  have one: "material (buildMesh \<lparr>expressID = 7, geometries = []\<rparr> (examplePlaced 11 1)
                 triangleVerts [0, 1, 2]) =
       SingleMaterial \<lparr>color = (Num 1, Num 0, Num (1 / 2)), side = DoubleSide, transparent = False,
                       opacity = Num 1, depthWrite = True\<rparr>"
    by (simp add: buildMesh_def Let_def clamp_finite jsGreaterEq_def)
  from material_from_color [OF p [of "995 / 1000"], of "995 / 1000"] c [of "995 / 1000"]
  have near: "material (buildMesh \<lparr>expressID = 7, geometries = []\<rparr> (examplePlaced 11 (995 / 1000))
                 triangleVerts [0, 1, 2]) =
       SingleMaterial \<lparr>color = (Num 1, Num 0, Num (1 / 2)), side = DoubleSide, transparent = False,
                       opacity = Num (995 / 1000), depthWrite = True\<rparr>"
    by (simp add: buildMesh_def Let_def clamp_finite jsGreaterEq_def)
  from p [of "1 / 2"] half one near show ?thesis by blast
qed

subsection \<open>C8\<close>

text \<open>
  Claim C8. A load that succeeds and was given a progress callback has called it five
  times, with the percentages 10, 30, 50, 90, 100 in this order, each with its stage and
  message, and with nothing else: the geometry stage reports no progress of its own.
\<close>

theorem load_progress_checkpoints:
  assumes "loadIfcFile env file (Some cb) s = (Inr model, s', t)"
  shows "progressOf t =
     [\<lparr>percent = 10, message = ''Reading file...'', stage = reading\<rparr>,
      \<lparr>percent = 30, message = ''Opening IFC model...'', stage = parsing\<rparr>,
      \<lparr>percent = 50, message = ''Generating geometry...'', stage = geometry_stage\<rparr>,
      \<lparr>percent = 90, message = ''Finalizing...'', stage = rendering\<rparr>,
      \<lparr>percent = 100, message = ''Complete'', stage = complete\<rparr>]
    \<and> map percent (progressOf t) = [10, 30, 50, 90, 100]"
proof -
  from assms obtain t' where t': "loadIfcFile_try env file (Some cb) s = (Inr model, t')"
    and t: "t = Log LogInfo ''Loading IFC file'' # t'"
    by (auto simp: loadIfcFile_def split: option.splits prod.splits sum.splits)
  from loadIfcFile_try_progress[OF t'] t show ?thesis by simp
qed

theorem load_progress_checkpoints_witness:
  "\<exists>model s' t. loadIfcFile exampleEnv exampleFile (Some quietCallback) readyLoader = (Inr model, s', t)
     \<and> progressOf t =
         [\<lparr>percent = 10, message = ''Reading file...'', stage = reading\<rparr>,
          \<lparr>percent = 30, message = ''Opening IFC model...'', stage = parsing\<rparr>,
          \<lparr>percent = 50, message = ''Generating geometry...'', stage = geometry_stage\<rparr>,
          \<lparr>percent = 90, message = ''Finalizing...'', stage = rendering\<rparr>,
          \<lparr>percent = 100, message = ''Complete'', stage = complete\<rparr>]"
proof -
  from ex_load obtain model t where
    l: "loadIfcFile exampleEnv exampleFile (Some quietCallback) readyLoader = (Inr model, readyLoader, t)"
    by blast
  from load_progress_checkpoints [OF l] l show ?thesis by blast
qed

subsection \<open>C9\<close>



subsection \<open>C10\<close>

text \<open>
  Claim C10. A call of \<^verbatim>\<open>loadIfcFile\<close>, whether it returns a model or throws, leaves the
  loader's state as it found it: \<^verbatim>\<open>isInitialized\<close>, \<^verbatim>\<open>isInitializing\<close> and \<^verbatim>\<open>ifcApi\<close> are
  unchanged, so \<^verbatim>\<open>ensureInitialized\<close> answers the next load as it answered this one.
\<close>

theorem load_keeps_loader_state:
  assumes "loadIfcFile env file onProgress s = (r, s', t)"
  shows "s' = s \<and> isInitialized s' = isInitialized s \<and> isInitializing s' = isInitializing s
    \<and> ifcApi s' = ifcApi s \<and> ensureInitialized s' = ensureInitialized s"
proof -
  from assms have "s' = s"
    by (auto simp: loadIfcFile_def split: option.splits prod.splits sum.splits)
  then show ?thesis by simp
qed

theorem load_keeps_loader_state_witness:
  "(\<exists>model t. loadIfcFile exampleEnv exampleFile (Some quietCallback) readyLoader =
       (Inr model, readyLoader, t))
   \<and> (\<exists>e t. loadIfcFile exampleEnv unreadableFile None readyLoader = (Inl e, readyLoader, t))
   \<and> fst (snd (loadIfcFile exampleEnv exampleFile None abortingLoader)) = abortingLoader
   \<and> ensureInitialized readyLoader = None"
proof -
  from ex_load obtain model t where
    l: "loadIfcFile exampleEnv exampleFile (Some quietCallback) readyLoader = (Inr model, readyLoader, t)"
    by blast
  have c: "loadIfcFile exampleEnv exampleFile None abortingLoader =
      (fst (loadIfcFile exampleEnv exampleFile None abortingLoader),
       fst (snd (loadIfcFile exampleEnv exampleFile None abortingLoader)),
       snd (snd (loadIfcFile exampleEnv exampleFile None abortingLoader)))"
    by simp
  from load_keeps_loader_state [OF l] load_keeps_loader_state [OF ex_load_unreadable]
    load_keeps_loader_state [OF c] l ex_load_unreadable
  show ?thesis by (auto simp: ensureInitialized_def ready_simps)
qed

end
